theory Spec2Isabelle
  imports Main
begin

section \<open>log4go: levels, records, filters\<close>

text \<open>
  The package declares \<^verbatim>\<open>type Level int\<close> with the constants FINEST .. CRITICAL,
  the \<^verbatim>\<open>LogRecord\<close> and \<^verbatim>\<open>Filter\<close> structs, the table \<^verbatim>\<open>levelStrings\<close> and the
  registry \<^verbatim>\<open>Global\<close> in log4go.go. That file is not among the sources; the field
  names below are the ones the struct literals of the sources use
  (\<^verbatim>\<open>&LogRecord{Level: .., Created: .., Source: .., Message: .., Category: ..}\<close>,
  \<^verbatim>\<open>&Filter{level, writer, category}\<close>).
\<close>

type_synonym Level = int

text \<open>Modelled from the spec: the Level constants of log4go.go, which is not among the
  sources. Section 3 of the spec gives the order
  FINEST < FINE < DEBUG < TRACE < INFO < WARNING < ERROR < CRITICAL.\<close>

definition FINEST :: Level where "FINEST = 0"
definition FINE :: Level where "FINE = 1"
definition DEBUG :: Level where "DEBUG = 2"
definition TRACE :: Level where "TRACE = 3"
definition INFO :: Level where "INFO = 4"
definition WARNING :: Level where "WARNING = 5"
definition ERROR :: Level where "ERROR = 6"
definition CRITICAL :: Level where "CRITICAL = 7"

text \<open>Modelled from the spec: the table \<^verbatim>\<open>levelStrings\<close> of log4go.go, which is not
  among the sources. The short codes are those of the directive comment of pattlog.go
  (FNST, FINE, DEBG, TRAC, WARN, EROR, CRIT) and of the sample output of the README
  ([INFO], [DEBG]).\<close>

definition levelStrings :: "string list" where
  "levelStrings = [''FNST'', ''FINE'', ''DEBG'', ''TRAC'', ''INFO'', ''WARN'', ''EROR'', ''CRIT'']"

text \<open>
  A \<^verbatim>\<open>time.Time\<close> value is a value of Go's standard library. The record holds what
  the accessor methods called by the sources return for it: \<^verbatim>\<open>t.Year()\<close>, ...,
  \<^verbatim>\<open>t.Zone()\<close>, \<^verbatim>\<open>t.UnixNano()\<close>, \<^verbatim>\<open>t.UnixMicro()\<close>, \<^verbatim>\<open>t.Month().String()\<close>,
  \<^verbatim>\<open>t.Weekday()\<close> printed with \<^verbatim>\<open>%s\<close>, and \<^verbatim>\<open>t.Format(layout)\<close>.
\<close>

record Time =
  Year :: int
  Month :: int
  Day :: int
  Hour :: int
  Minute :: int
  Second :: int
  Zone :: string
  UnixNano :: int
  UnixMicro :: int
  MonthName :: string
  Weekday :: string
  Format :: "string \<Rightarrow> string"

text \<open>Modelled from the spec: the struct \<^verbatim>\<open>LogRecord\<close> of log4go.go, which is not among
  the sources. Section 3 of the spec lists its fields (Level, Created, Source, Message,
  Category); the sources build and read it under these names.\<close>

record LogRecord =
  Level :: Level
  Created :: Time
  Source :: string
  Message :: string
  Category :: string

text \<open>Modelled from the spec: the interface \<^verbatim>\<open>LogWriter\<close> and the struct
  \<^verbatim>\<open>Filter\<close> of log4go.go, which is not among the sources. Section 3 of the spec
  gives a Filter as a threshold level, a sink and a category, the order of the literal
  \<^verbatim>\<open>&Filter{level, writer, category}\<close> of the sources. A \<^verbatim>\<open>LogWriter\<close> is referred to
  by the number of its record channel.\<close>

type_synonym LogWriter = nat

record Filter =
  Filter_Level :: Level
  Filter_LogWriter :: LogWriter
  Filter_Category :: string

text \<open>Run-time panics of Go that the modelled code can raise.\<close>

datatype panic = NilDereference | IndexOutOfRange

section \<open>The category router (category.go)\<close>

text \<open>Modelled from the spec: the package variable \<^verbatim>\<open>Global\<close> of log4go.go, which is
  not among the sources; section 4.4 of the spec has it map a category name to a Filter.
  The sources index it by a string and patch the Filter they get in place
  (\<^verbatim>\<open>f.Category = ...\<close> in \<^verbatim>\<open>LOGGER\<close>), so the filters are shared objects: the
  registry is a map from category names to
  addresses and a heap of Filter objects. A key that is absent yields the nil pointer.
  Each sink's channel is the list of the records sent to it, oldest first
  (\<^verbatim>\<open>LogWrite\<close> of every writer is a channel send; a full channel blocks the sender,
  which this sequential model does not show).
\<close>

type_synonym addr = nat

record Registry =
  Global :: "string \<rightharpoonup> addr"
  heap :: "addr \<Rightarrow> Filter"
  chans :: "LogWriter \<Rightarrow> LogRecord list"

definition LogWrite :: "LogWriter \<Rightarrow> LogRecord \<Rightarrow> Registry \<Rightarrow> Registry" where
  "LogWrite w rec st = st\<lparr>chans := (chans st)(w := chans st w @ [rec])\<rparr>"

text \<open>\<^verbatim>\<open>func LOGGER(category string) *Filter\<close>\<close>

definition LOGGER :: "string \<Rightarrow> Registry \<Rightarrow> panic + (addr \<times> Registry)" where
  "LOGGER category st =
     (case Global st category of
        None \<Rightarrow>
          (case Global st ''stdout'' of
             None \<Rightarrow> Inl NilDereference
           | Some f \<Rightarrow>
               Inr (f, st\<lparr>heap := (heap st)(f := (heap st f)\<lparr>Filter_Category := ''DEFAULT''\<rparr>)\<rparr>))
      | Some f \<Rightarrow>
          Inr (f, st\<lparr>heap := (heap st)(f := (heap st f)\<lparr>Filter_Category := category\<rparr>)\<rparr>))"

text \<open>
  What a logging call reads from outside the package: \<^verbatim>\<open>fmt.Sprintf\<close>,
  \<^verbatim>\<open>fmt.Sprint\<close>, the source position computed from \<^verbatim>\<open>runtime.Caller(2)\<close>
  (the empty string when the caller is unknown) and \<^verbatim>\<open>time.Now()\<close>.
\<close>

record 'a Env =
  Sprintf :: "string \<Rightarrow> 'a list \<Rightarrow> string"
  Sprint :: "'a \<Rightarrow> string"
  caller :: string
  clock :: Time

text \<open>\<^verbatim>\<open>func (f *Filter) intLogf(lvl Level, format string, args ...interface{})\<close>\<close>

definition intLogf :: "'a Env \<Rightarrow> addr \<Rightarrow> Level \<Rightarrow> string \<Rightarrow> 'a list \<Rightarrow> Registry \<Rightarrow> panic + Registry" where
  "intLogf E f lvl format args st =
     (if \<not> (lvl \<ge> Filter_Level (heap st f)) then Inr st
      else
        (let src = caller E;
             msg = (if length args > 0 then Sprintf E format args else format);
             rec = \<lparr>Level = lvl, Created = clock E, Source = src, Message = msg,
                    Category = Filter_Category (heap st f)\<rparr>
         in case Global st ''stdout'' of
              None \<Rightarrow> Inl NilDereference
            | Some default_filter \<Rightarrow>
                (let st1 = (if lvl > Filter_Level (heap st default_filter)
                            then LogWrite (Filter_LogWriter (heap st default_filter)) rec st
                            else st);
                     st2 = (if Filter_Category (heap st f) \<noteq> ''DEFAULT'' \<and>
                               Filter_Category (heap st f) \<noteq> ''stdout''
                            then LogWrite (Filter_LogWriter (heap st f)) rec st1
                            else st1)
                 in Inr st2)))"

text \<open>\<^verbatim>\<open>func (f *Filter) intLogc(lvl Level, closure func() string)\<close>\<close>

definition intLogc :: "'a Env \<Rightarrow> addr \<Rightarrow> Level \<Rightarrow> (unit \<Rightarrow> string) \<Rightarrow> Registry \<Rightarrow> panic + Registry" where
  "intLogc E f lvl closure st =
     (if \<not> (lvl \<ge> Filter_Level (heap st f)) then Inr st
      else
        (let src = caller E;
             rec = \<lparr>Level = lvl, Created = clock E, Source = src, Message = closure (),
                    Category = Filter_Category (heap st f)\<rparr>
         in case Global st ''stdout'' of
              None \<Rightarrow> Inl NilDereference
            | Some default_filter \<Rightarrow>
                (let st1 = (if lvl > Filter_Level (heap st default_filter)
                            then LogWrite (Filter_LogWriter (heap st default_filter)) rec st
                            else st);
                     st2 = (if Filter_Category (heap st f) \<noteq> ''DEFAULT'' \<and>
                               Filter_Category (heap st f) \<noteq> ''stdout''
                            then LogWrite (Filter_LogWriter (heap st f)) rec st1
                            else st1)
                 in Inr st2)))"

text \<open>\<^verbatim>\<open>func (f *Filter) Log(lvl Level, source, message string)\<close>\<close>

definition Log :: "'a Env \<Rightarrow> addr \<Rightarrow> Level \<Rightarrow> string \<Rightarrow> string \<Rightarrow> Registry \<Rightarrow> panic + Registry" where
  "Log E f lvl source message st =
     (if \<not> (lvl \<ge> Filter_Level (heap st f)) then Inr st
      else
        (let rec = \<lparr>Level = lvl, Created = clock E, Source = source, Message = message,
                    Category = Filter_Category (heap st f)\<rparr>
         in case Global st ''stdout'' of
              None \<Rightarrow> Inl NilDereference
            | Some default_filter \<Rightarrow>
                (let st1 = (if lvl > Filter_Level (heap st default_filter)
                            then LogWrite (Filter_LogWriter (heap st default_filter)) rec st
                            else st);
                     st2 = (if Filter_Category (heap st f) \<noteq> ''DEFAULT'' \<and>
                               Filter_Category (heap st f) \<noteq> ''stdout''
                            then LogWrite (Filter_LogWriter (heap st f)) rec st1
                            else st1)
                 in Inr st2)))"

definition Logf :: "'a Env \<Rightarrow> addr \<Rightarrow> Level \<Rightarrow> string \<Rightarrow> 'a list \<Rightarrow> Registry \<Rightarrow> panic + Registry" where
  "Logf E f lvl format args st = intLogf E f lvl format args st"

definition Logc :: "'a Env \<Rightarrow> addr \<Rightarrow> Level \<Rightarrow> (unit \<Rightarrow> string) \<Rightarrow> Registry \<Rightarrow> panic + Registry" where
  "Logc E f lvl closure st = intLogc E f lvl closure st"

text \<open>
  The first argument of a leveled method is an \<^verbatim>\<open>interface{}\<close> that the method
  switches on: a string, a \<^verbatim>\<open>func() string\<close>, or anything else.
\<close>

datatype 'a arg0 = String string | Closure "unit \<Rightarrow> string" | Other 'a

definition Finest :: "'a Env \<Rightarrow> addr \<Rightarrow> 'a arg0 \<Rightarrow> 'a list \<Rightarrow> Registry \<Rightarrow> panic + Registry" where
  "Finest E f a args st =
     (let lvl = FINEST in
      case a of
        String first \<Rightarrow> intLogf E f lvl first args st
      | Closure first \<Rightarrow> intLogc E f lvl first st
      | Other v \<Rightarrow>
          intLogf E f lvl (Sprint E v @ concat (replicate (length args) '' %v'')) args st)"

definition Fine :: "'a Env \<Rightarrow> addr \<Rightarrow> 'a arg0 \<Rightarrow> 'a list \<Rightarrow> Registry \<Rightarrow> panic + Registry" where
  "Fine E f a args st =
     (let lvl = FINE in
      case a of
        String first \<Rightarrow> intLogf E f lvl first args st
      | Closure first \<Rightarrow> intLogc E f lvl first st
      | Other v \<Rightarrow>
          intLogf E f lvl (Sprint E v @ concat (replicate (length args) '' %v'')) args st)"

definition Debug :: "'a Env \<Rightarrow> addr \<Rightarrow> 'a arg0 \<Rightarrow> 'a list \<Rightarrow> Registry \<Rightarrow> panic + Registry" where
  "Debug E f a args st =
     (let lvl = DEBUG in
      case a of
        String first \<Rightarrow> intLogf E f lvl first args st
      | Closure first \<Rightarrow> intLogc E f lvl first st
      | Other v \<Rightarrow>
          intLogf E f lvl (Sprint E v @ concat (replicate (length args) '' %v'')) args st)"

definition Trace :: "'a Env \<Rightarrow> addr \<Rightarrow> 'a arg0 \<Rightarrow> 'a list \<Rightarrow> Registry \<Rightarrow> panic + Registry" where
  "Trace E f a args st =
     (let lvl = TRACE in
      case a of
        String first \<Rightarrow> intLogf E f lvl first args st
      | Closure first \<Rightarrow> intLogc E f lvl first st
      | Other v \<Rightarrow>
          intLogf E f lvl (Sprint E v @ concat (replicate (length args) '' %v'')) args st)"

definition Info :: "'a Env \<Rightarrow> addr \<Rightarrow> 'a arg0 \<Rightarrow> 'a list \<Rightarrow> Registry \<Rightarrow> panic + Registry" where
  "Info E f a args st =
     (let lvl = INFO in
      case a of
        String first \<Rightarrow> intLogf E f lvl first args st
      | Closure first \<Rightarrow> intLogc E f lvl first st
      | Other v \<Rightarrow>
          intLogf E f lvl (Sprint E v @ concat (replicate (length args) '' %v'')) args st)"

text \<open>At WARNING and above the message is built before the level is looked at, and
  \<^verbatim>\<open>intLogf\<close> is called without arguments.\<close>

definition Warn :: "'a Env \<Rightarrow> addr \<Rightarrow> 'a arg0 \<Rightarrow> 'a list \<Rightarrow> Registry \<Rightarrow> panic + Registry" where
  "Warn E f a args st =
     (let lvl = WARNING;
          msg = (case a of
                   String first \<Rightarrow> Sprintf E first args
                 | Closure first \<Rightarrow> first ()
                 | Other v \<Rightarrow>
                     Sprintf E (Sprint E v @ concat (replicate (length args) '' %v'')) args)
      in intLogf E f lvl msg [] st)"

definition Error :: "'a Env \<Rightarrow> addr \<Rightarrow> 'a arg0 \<Rightarrow> 'a list \<Rightarrow> Registry \<Rightarrow> panic + Registry" where
  "Error E f a args st =
     (let lvl = ERROR;
          msg = (case a of
                   String first \<Rightarrow> Sprintf E first args
                 | Closure first \<Rightarrow> first ()
                 | Other v \<Rightarrow>
                     Sprintf E (Sprint E v @ concat (replicate (length args) '' %v'')) args)
      in intLogf E f lvl msg [] st)"

definition Critical :: "'a Env \<Rightarrow> addr \<Rightarrow> 'a arg0 \<Rightarrow> 'a list \<Rightarrow> Registry \<Rightarrow> panic + Registry" where
  "Critical E f a args st =
     (let lvl = CRITICAL;
          msg = (case a of
                   String first \<Rightarrow> Sprintf E first args
                 | Closure first \<Rightarrow> first ()
                 | Other v \<Rightarrow>
                     Sprintf E (Sprint E v @ concat (replicate (length args) '' %v'')) args)
      in intLogf E f lvl msg [] st)"

section \<open>Library functions of Go used by the package\<close>

text \<open>Go's integer division truncates towards zero, and \<^verbatim>\<open>%\<close> takes the sign of
  the dividend.\<close>

definition go_div :: "int \<Rightarrow> int \<Rightarrow> int" where
  "go_div a b = sgn a * sgn b * (\<bar>a\<bar> div \<bar>b\<bar>)"

definition go_mod :: "int \<Rightarrow> int \<Rightarrow> int" where
  "go_mod a b = a - b * go_div a b"

text \<open>The decimal digits of a natural number, as \<^verbatim>\<open>%d\<close> prints them.\<close>

fun decimal :: "nat \<Rightarrow> string" where
  "decimal n = (if n < 10 then [''0123456789'' ! n]
            else decimal (n div 10) @ [''0123456789'' ! (n mod 10)])"

declare decimal.simps [simp del]

text \<open>\<^verbatim>\<open>fmt.Sprintf("%d", n)\<close>\<close>

definition Itoa :: "int \<Rightarrow> string" where
  "Itoa n = (if n < 0 then CHR ''-'' # decimal (nat (- n)) else decimal (nat n))"

text \<open>\<^verbatim>\<open>fmt.Sprintf("%0<width>d", n)\<close>: zero padding up to the width, which counts
  the sign.\<close>

definition Sprintf_0d :: "nat \<Rightarrow> int \<Rightarrow> string" where
  "Sprintf_0d width n =
     (if n < 0
      then CHR ''-'' # replicate (width - 1 - length (decimal (nat (- n)))) CHR ''0'' @ decimal (nat (- n))
      else replicate (width - length (decimal (nat n))) CHR ''0'' @ decimal (nat n))"

text \<open>\<^verbatim>\<open>bytes.Split(s, []byte{sep})\<close> and \<^verbatim>\<open>strings.Split(s, string(sep))\<close> for a
  separator of one byte: one piece more than there are separators.\<close>

fun Split :: "string \<Rightarrow> char \<Rightarrow> string list" where
  "Split [] sep = [[]]"
| "Split (c # cs) sep =
     (if c = sep then [] # Split cs sep
      else (case Split cs sep of [] \<Rightarrow> [[c]] | p # ps \<Rightarrow> (c # p) # ps))"

text \<open>\<^verbatim>\<open>strings.Replace(s, old, new, -1)\<close> for a non-empty \<^verbatim>\<open>old\<close> (every call of
  the package passes one): the occurrences are replaced from the left, without
  overlap.\<close>

function strings_Replace :: "string \<Rightarrow> string \<Rightarrow> string \<Rightarrow> string" where
  "strings_Replace s old new =
     (if s = [] \<or> old = [] then s
      else if take (length old) s = old
           then new @ strings_Replace (drop (length old) s) old new
           else hd s # strings_Replace (tl s) old new)"
  by pat_completeness auto
termination
  by (relation "measure (\<lambda>(s, old, new). length s)") (auto simp: neq_Nil_conv)

declare strings_Replace.simps [simp del]

section \<open>The format template engine (pattlog.go)\<close>

text \<open>
  \<^verbatim>\<open>changeDttmFormat\<close> replaces the matches of the regular expression
  \<^verbatim>\<open>\%D\{(.*?)\}\<close>, found from the left without overlap. A match starts at
  \<^verbatim>\<open>%D{\<close> and runs to the first closing brace, with no line feed in between (the
  dot of Go's regexp does not match a line feed). \<^verbatim>\<open>find_close\<close> looks for that
  brace in the text after \<^verbatim>\<open>%D{\<close>.
\<close>

fun find_close :: "string \<Rightarrow> (string \<times> string) option" where
  "find_close [] = None"
| "find_close (c # cs) =
     (if c = CHR ''}'' then Some ([], cs)
      else if c = CHR 0x0A then None
      else (case find_close cs of
              None \<Rightarrow> None
            | Some (inner, rest) \<Rightarrow> Some (c # inner, rest)))"

text \<open>The replacement function of \<^verbatim>\<open>ReplaceAllFunc\<close>: \<^verbatim>\<open>i\<close> counts the matches
  replaced so far; the first two are formatted, the others are left as they are.\<close>

function dttm_replace :: "Time \<Rightarrow> nat \<Rightarrow> string \<Rightarrow> string" where
  "dttm_replace created i s =
     (case s of
        [] \<Rightarrow> []
      | c # cs \<Rightarrow>
          (if take 3 s = ''%D{''
           then (case find_close (drop 3 s) of
                   None \<Rightarrow> c # dttm_replace created i cs
                 | Some (inner, rest) \<Rightarrow>
                     (if i < 2
                      then (let str = ''%D{'' @ inner @ ''}'';
                                str = strings_Replace str ''%D'' [];
                                str = strings_Replace str ''{'' [];
                                str = strings_Replace str ''}'' []
                            in Format created str @ dttm_replace created (i + 1) rest)
                      else (''%D{'' @ inner @ ''}'') @ dttm_replace created i rest))
           else c # dttm_replace created i cs))"
  by pat_completeness auto
termination
proof -
  have shorter: "find_close s = Some (inner, rest) \<Longrightarrow> length rest < length s"
    for s inner rest
    by (induction s arbitrary: inner) (auto split: if_splits option.splits)
  show ?thesis
    by (relation "measure (\<lambda>(created, i, s). length s)") (auto dest!: shorter)
qed

declare dttm_replace.simps [simp del]

text \<open>\<^verbatim>\<open>func changeDttmFormat(format string, rec *LogRecord) []byte\<close>\<close>

definition changeDttmFormat :: "string \<Rightarrow> LogRecord \<Rightarrow> string" where
  "changeDttmFormat format rec = dttm_replace (Created rec) 0 format"

record formatCacheType =
  LastUpdateSeconds :: int
  shortTime :: string
  shortDate :: string
  longTime :: string
  longDate :: string

text \<open>\<^verbatim>\<open>var formatCache = &formatCacheType{}\<close>\<close>

definition formatCache_init :: formatCacheType where
  "formatCache_init =
     \<lparr>LastUpdateSeconds = 0, shortTime = [], shortDate = [], longTime = [], longDate = []\<rparr>"

text \<open>The \<^verbatim>\<open>switch piece[0]\<close> of \<^verbatim>\<open>FormatLogRecord\<close>: the text the directive
  writes, and the record (the \<^verbatim>\<open>C\<close> directive patches an empty category).
  Indexing \<^verbatim>\<open>levelStrings\<close> out of range panics.\<close>

definition directive :: "formatCacheType \<Rightarrow> char \<Rightarrow> LogRecord \<Rightarrow> panic + (string \<times> LogRecord)" where
  "directive cache c rec =
     (if c = CHR ''T'' then Inr (longTime cache, rec)
      else if c = CHR ''t'' then Inr (shortTime cache, rec)
      else if c = CHR ''D'' then Inr (longDate cache, rec)
      else if c = CHR ''d'' then Inr (shortDate cache, rec)
      else if c = CHR ''L'' then
        (if 0 \<le> Level rec \<and> Level rec < int (length levelStrings)
         then Inr (levelStrings ! nat (Level rec), rec)
         else Inl IndexOutOfRange)
      else if c = CHR ''S'' then Inr (Source rec, rec)
      else if c = CHR ''s'' then Inr (last (Split (Source rec) CHR ''/''), rec)
      else if c = CHR ''M'' then Inr (Message rec, rec)
      else if c = CHR ''C'' then
        (let rec = (if length (Category rec) = 0 then rec\<lparr>Category := ''DEFAULT''\<rparr> else rec)
         in Inr (Category rec, rec))
      else Inr ([], rec))"

text \<open>The loop \<^verbatim>\<open>for i, piece := range pieces\<close>, from index \<^verbatim>\<open>i\<close> on, with the
  buffer \<^verbatim>\<open>out\<close>.\<close>

fun pieces_loop :: "formatCacheType \<Rightarrow> nat \<Rightarrow> string list \<Rightarrow> string \<Rightarrow> LogRecord \<Rightarrow> panic + (string \<times> LogRecord)" where
  "pieces_loop cache i [] out rec = Inr (out, rec)"
| "pieces_loop cache i (piece # pieces) out rec =
     (if i > 0 \<and> length piece > 0 then
        (case directive cache (hd piece) rec of
           Inl p \<Rightarrow> Inl p
         | Inr (s, rec') \<Rightarrow>
             pieces_loop cache (i + 1) pieces
               (out @ s @ (if length piece > 1 then tl piece else [])) rec')
      else if length piece > 0 then pieces_loop cache (i + 1) pieces (out @ piece) rec
      else pieces_loop cache (i + 1) pieces out rec)"

text \<open>
  \<^verbatim>\<open>func FormatLogRecord(format string, rec *LogRecord) string\<close>. The call reads and
  replaces the package variable \<^verbatim>\<open>formatCache\<close> and may patch the record, so the
  model takes the cache and returns the text, the cache and the record.
\<close>

definition FormatLogRecord :: "formatCacheType \<Rightarrow> string \<Rightarrow> LogRecord option \<Rightarrow> panic + (string \<times> formatCacheType \<times> LogRecord option)" where
  "FormatLogRecord formatCache format recp =
     (case recp of
        None \<Rightarrow> Inr (''<nil>'', formatCache, None)
      | Some rec \<Rightarrow>
          (if length format = 0 then Inr ([], formatCache, Some rec)
           else
             (let secs = go_div (UnixNano (Created rec)) 1000000000;
                  cache =
                    (if LastUpdateSeconds formatCache \<noteq> secs then
                       (let month = Month (Created rec); day = Day (Created rec);
                            year = Year (Created rec); hour = Hour (Created rec);
                            minute = Minute (Created rec); second = Second (Created rec);
                            zone = Zone (Created rec)
                        in \<lparr>LastUpdateSeconds = secs,
                            shortTime = Sprintf_0d 2 hour @ '':'' @ Sprintf_0d 2 minute,
                            shortDate = Sprintf_0d 2 day @ ''/'' @ Sprintf_0d 2 month @ ''/'' @
                                        Sprintf_0d 2 (go_mod year 100),
                            longTime = Sprintf_0d 2 hour @ '':'' @ Sprintf_0d 2 minute @ '':'' @
                                       Sprintf_0d 2 second @ '' '' @ zone,
                            longDate = Sprintf_0d 4 year @ ''/'' @ Sprintf_0d 2 month @ ''/'' @
                                       Sprintf_0d 2 day\<rparr>)
                     else formatCache);
                  formatByte = changeDttmFormat format rec;
                  pieces = Split formatByte CHR ''%''
              in case pieces_loop cache 0 pieces [] rec of
                   Inl p \<Rightarrow> Inl p
                 | Inr (out, rec') \<Rightarrow> Inr (out @ [CHR 0x0A], cache, Some rec'))))"

subsection \<open>The second \<^verbatim>\<open>FormatLogRecord\<close> of the sources\<close>






section \<open>The rotating file sink (filelog.go, utils.go)\<close>

text \<open>
  The file system as the sink sees it: the regular files by path, with their content and
  modification time, and, for the two operations whose failure the sink looks at,
  whether the system refuses them for a reason outside the model (permissions, a
  directory in the way, a full disk). Nothing but the sink changes the files.
\<close>

record File =
  content :: string
  ModTime :: Time

record FS =
  files :: "string \<rightharpoonup> File"
  rename_fails :: "string \<Rightarrow> string \<Rightarrow> bool"
  open_fails :: "string \<Rightarrow> bool"

datatype os_error = ErrNotExist | ErrExist | ErrPermission | ErrClosed | ErrInvalid

text \<open>The errors \<^verbatim>\<open>intRotate\<close> returns: \<^verbatim>\<open>fmt.Errorf("Rotate: %s\n", err)\<close> for a
  rename, the error of \<^verbatim>\<open>os.OpenFile\<close> as it is.\<close>

datatype error = Errorf_Rotate os_error | Plain os_error

text \<open>An \<^verbatim>\<open>*os.File\<close> that is not nil: the path it was opened at, and whether it is
  still open.\<close>

datatype os_File = Handle string bool

definition os_IsExist :: "os_error \<Rightarrow> bool" where
  "os_IsExist err = (err = ErrExist)"

definition os_Stat :: "FS \<Rightarrow> string \<Rightarrow> os_error + File" where
  "os_Stat fsys name = (case files fsys name of None \<Rightarrow> Inl ErrNotExist | Some info \<Rightarrow> Inr info)"

definition os_Lstat :: "FS \<Rightarrow> string \<Rightarrow> os_error + File" where
  "os_Lstat fsys name = (case files fsys name of None \<Rightarrow> Inl ErrNotExist | Some info \<Rightarrow> Inr info)"

text \<open>\<^verbatim>\<open>os.Rename\<close>: the new path is replaced when it exists.\<close>

definition os_Rename :: "FS \<Rightarrow> string \<Rightarrow> string \<Rightarrow> os_error + FS" where
  "os_Rename fsys oldpath newpath =
     (case files fsys oldpath of
        None \<Rightarrow> Inl ErrNotExist
      | Some f \<Rightarrow>
          (if newpath = [] then Inl ErrNotExist
           else if rename_fails fsys oldpath newpath then Inl ErrPermission
           else if oldpath = newpath then Inr fsys
           else Inr (fsys\<lparr>files := ((files fsys)(newpath \<mapsto> f))(oldpath := None)\<rparr>)))"

text \<open>\<^verbatim>\<open>os.OpenFile(name, os.O_WRONLY|os.O_APPEND|os.O_CREATE, 0660)\<close>\<close>

definition os_OpenFile :: "FS \<Rightarrow> string \<Rightarrow> Time \<Rightarrow> os_error + (os_File \<times> FS)" where
  "os_OpenFile fsys name now =
     (if name = [] then Inl ErrNotExist
      else if open_fails fsys name then Inl ErrPermission
      else (case files fsys name of
              None \<Rightarrow>
                Inr (Handle name True,
                     fsys\<lparr>files := (files fsys)(name \<mapsto> \<lparr>content = [], ModTime = now\<rparr>)\<rparr>)
            | Some f \<Rightarrow> Inr (Handle name True, fsys)))"

text \<open>\<^verbatim>\<open>(*os.File).Close\<close>, for a pointer that may be nil.\<close>

definition os_Close :: "os_File option \<Rightarrow> os_File option" where
  "os_Close fd = (case fd of None \<Rightarrow> None | Some (Handle name opened) \<Rightarrow> Some (Handle name False))"

text \<open>\<^verbatim>\<open>fmt.Fprint(file, s)\<close>: the number of bytes written and the error. The sink
  renames a file only after it has closed it, so an open handle writes to the file at
  its path.\<close>

definition Fprint :: "os_File option \<Rightarrow> string \<Rightarrow> Time \<Rightarrow> FS \<Rightarrow> (int \<times> os_error option) \<times> FS" where
  "Fprint fd s now fsys =
     (case fd of
        None \<Rightarrow> ((0, Some ErrInvalid), fsys)
      | Some (Handle name opened) \<Rightarrow>
          (if \<not> opened then ((0, Some ErrClosed), fsys)
           else (case files fsys name of
                   None \<Rightarrow> ((int (length s), None), fsys)
                 | Some f \<Rightarrow>
                     ((int (length s), None),
                      fsys\<lparr>files := (files fsys)(name \<mapsto>
                         f\<lparr>content := content f @ s,
                           ModTime := (if s = [] then ModTime f else now)\<rparr>)\<rparr>))))"

text \<open>The fields of \<^verbatim>\<open>FileLogWriter\<close> but the two channels, which are the events
  the consumer loop reads. The field \<^verbatim>\<open>rotate\<close> is \<open>rotate'\<close> here.\<close>

record FileLogWriter =
  filename :: string
  "file" :: "os_File option"
  format :: string
  header :: string
  trailer :: string
  maxlines :: int
  maxlines_curlines :: int
  maxsize :: int
  maxsize_cursize :: int
  daily :: bool
  daily_opendate :: int
  rotate' :: bool
  maxbackup :: int
  currbackup :: int
  sanitize :: bool

text \<open>What the sink shares with the rest of the process: the file system, the package
  variable \<^verbatim>\<open>formatCache\<close>, and what was printed to the error and output streams.\<close>

record World =
  fs :: FS
  formatCache :: formatCacheType
  stderr :: "(string \<times> error) list"
  stdout :: "panic list"

text \<open>What a call ends with: it returns nil, returns an error, or panics.\<close>

datatype outcome = Nil | Err error | Panic panic

text \<open>\<^verbatim>\<open>&LogRecord{Created: now}\<close>\<close>

definition blank_record :: "Time \<Rightarrow> LogRecord" where
  "blank_record now = \<lparr>Level = 0, Created = now, Source = [], Message = [], Category = []\<rparr>"

text \<open>\<^verbatim>\<open>fmt.Fprint(w.file, FormatLogRecord(template, &LogRecord{Created: time.Now()}))\<close>,
  with the result of \<^verbatim>\<open>Fprint\<close> dropped, as the four places that write a header or
  a trailer do.\<close>

definition Fprint_template :: "string \<Rightarrow> Time \<Rightarrow> FileLogWriter \<Rightarrow> World \<Rightarrow> panic + World" where
  "Fprint_template template now w wd =
     (case FormatLogRecord (formatCache wd) template (Some (blank_record now)) of
        Inl p \<Rightarrow> Inl p
      | Inr (s, cache, r) \<Rightarrow>
          Inr (wd\<lparr>fs := snd (Fprint (file w) s now (fs wd)), formatCache := cache\<rparr>))"

text \<open>\<^verbatim>\<open>func fileExist(path string) bool\<close>\<close>

definition fileExist :: "FS \<Rightarrow> string \<Rightarrow> bool" where
  "fileExist fsys path = (case os_Stat fsys path of Inl err \<Rightarrow> os_IsExist err | Inr info \<Rightarrow> True)"

text \<open>The loop of \<^verbatim>\<open>getCurrBackup\<close>, from \<^verbatim>\<open>i\<close> on.\<close>

function getCurrBackup_loop :: "FS \<Rightarrow> string \<Rightarrow> string \<Rightarrow> int \<Rightarrow> int \<Rightarrow> int" where
  "getCurrBackup_loop fsys name day maxb i =
     (if i < maxb then
        (let backup = name @ ''.'' @ day @ ''.'' @ Itoa i
         in if \<not> fileExist fsys backup then i
            else getCurrBackup_loop fsys name day maxb (i + 1))
      else 1)"
  by pat_completeness auto
termination
  by (relation "measure (\<lambda>(fsys, name, day, maxb, i). nat (maxb - i))") auto

declare getCurrBackup_loop.simps [simp del]

text \<open>\<^verbatim>\<open>func (w *FileLogWriter) getCurrBackup() int\<close>\<close>

definition getCurrBackup :: "Time \<Rightarrow> FS \<Rightarrow> FileLogWriter \<Rightarrow> int" where
  "getCurrBackup now fsys w =
     (let day = Format now ''20060102''
      in getCurrBackup_loop fsys (filename w) day (maxbackup w) 1)"

text \<open>The loop \<^verbatim>\<open>for ; num >= 1; num--\<close> of \<^verbatim>\<open>intRotate\<close>: it returns the last
  value of \<^verbatim>\<open>fname\<close> and the files. The result of the \<^verbatim>\<open>os.Rename\<close> in its body
  is dropped.\<close>

function shift_backups :: "string \<Rightarrow> int \<Rightarrow> string \<Rightarrow> FS \<Rightarrow> string \<times> FS" where
  "shift_backups name num fname fsys =
     (if num \<ge> 1 then
        (let fname = name @ ''.'' @ Itoa num;
             nfname = name @ ''.'' @ Itoa (num + 1);
             fsys = (case os_Lstat fsys fname of
                       Inl err \<Rightarrow> fsys
                     | Inr info \<Rightarrow>
                         (case os_Rename fsys fname nfname of
                            Inl err \<Rightarrow> fsys
                          | Inr fsys' \<Rightarrow> fsys'))
         in shift_backups name (num - 1) fname fsys)
      else (fname, fsys))"
  by pat_completeness auto
termination
  by (relation "measure (\<lambda>(name, num, fname, fsys). nat num)") auto

declare shift_backups.simps [simp del]

text \<open>The first block of \<^verbatim>\<open>intRotate\<close>: close any log file that may be open.\<close>

definition rotate_close :: "Time \<Rightarrow> FileLogWriter \<Rightarrow> World \<Rightarrow> panic + (FileLogWriter \<times> World)" where
  "rotate_close now w wd =
     (if file w \<noteq> None then
        (case Fprint_template (trailer w) now w wd of
           Inl p \<Rightarrow> Inl p
         | Inr wd \<Rightarrow> Inr (w\<lparr>file := os_Close (file w)\<rparr>, wd))
      else Inr (w, wd))"

text \<open>The second block: if the log files are kept, move the file to its backup name.
  The clock is read once for the whole call of \<^verbatim>\<open>intRotate\<close>.\<close>

definition rotate_rename :: "Time \<Rightarrow> FileLogWriter \<Rightarrow> World \<Rightarrow> error option \<times> FileLogWriter \<times> World" where
  "rotate_rename now w wd =
     (if rotate' w then
        (case os_Stat (fs wd) (filename w) of
           Inl err \<Rightarrow> (None, w, wd)
         | Inr info \<Rightarrow>
             (let modifiedtime = ModTime info;
                  w = w\<lparr>daily_opendate := Day modifiedtime\<rparr>
              in if daily w then
                   (let modifieddate = Format modifiedtime ''20060102'';
                        (fname, w) =
                          (if Day now \<noteq> daily_opendate w
                           then (filename w @ ''.'' @ modifieddate @ ''.0'', w\<lparr>currbackup := 1\<rparr>)
                           else (filename w @ ''.'' @ modifieddate @ ''.'' @ Itoa (currbackup w),
                                 (let w = w\<lparr>currbackup := currbackup w + 1\<rparr>
                                  in if currbackup w \<ge> maxbackup w
                                     then w\<lparr>currbackup := 1\<rparr> else w)));
                        w = w\<lparr>file := os_Close (file w)\<rparr>
                    in case os_Rename (fs wd) (filename w) fname of
                         Inl err \<Rightarrow> (Some (Errorf_Rotate err), w, wd)
                       | Inr fsys \<Rightarrow> (None, w, wd\<lparr>fs := fsys\<rparr>))
                 else
                   (let num = maxbackup w - 1;
                        (fname, fsys) = shift_backups (filename w) num [] (fs wd);
                        wd = wd\<lparr>fs := fsys\<rparr>;
                        w = w\<lparr>file := os_Close (file w)\<rparr>
                    in case os_Rename (fs wd) (filename w) fname of
                         Inl err \<Rightarrow> (Some (Errorf_Rotate err), w, wd)
                       | Inr fsys \<Rightarrow> (None, w, wd\<lparr>fs := fsys\<rparr>))))
      else (None, w, wd))"

text \<open>The last block: open the log file, write the header, reset the counters.\<close>

definition rotate_open :: "Time \<Rightarrow> FileLogWriter \<Rightarrow> World \<Rightarrow> outcome \<times> FileLogWriter \<times> World" where
  "rotate_open now w wd =
     (case os_OpenFile (fs wd) (filename w) now of
        Inl err \<Rightarrow> (Err (Plain err), w, wd)
      | Inr (fd, fsys) \<Rightarrow>
          (let w = w\<lparr>file := Some fd\<rparr>;
               wd = wd\<lparr>fs := fsys\<rparr>
           in case Fprint_template (header w) now w wd of
                Inl p \<Rightarrow> (Panic p, w, wd)
              | Inr wd \<Rightarrow>
                  (Nil, w\<lparr>daily_opendate := Day now, maxlines_curlines := 0,
                          maxsize_cursize := 0\<rparr>, wd)))"

text \<open>\<^verbatim>\<open>func (w *FileLogWriter) intRotate() error\<close>\<close>

definition intRotate :: "Time \<Rightarrow> FileLogWriter \<Rightarrow> World \<Rightarrow> outcome \<times> FileLogWriter \<times> World" where
  "intRotate now w wd =
     (case rotate_close now w wd of
        Inl p \<Rightarrow> (Panic p, w, wd)
      | Inr (w, wd) \<Rightarrow>
          (case rotate_rename now w wd of
             (Some err, w, wd) \<Rightarrow> (Err err, w, wd)
           | (None, w, wd) \<Rightarrow> rotate_open now w wd))"

text \<open>
  The goroutine of \<^verbatim>\<open>NewFileLogWriter\<close> reads events: a rotation request from
  \<^verbatim>\<open>w.rot\<close>, a record from \<^verbatim>\<open>w.rec\<close>, or the end of \<^verbatim>\<open>w.rec\<close> after
  \<^verbatim>\<open>Close\<close>. Each event comes with the clock reading of its turn of the loop. A turn
  leaves the loop running, returns, or panics.
\<close>

datatype event = Rot | Rec LogRecord | Closed

datatype status = Running | Returned | Panicked panic

text \<open>\<^verbatim>\<open>fmt.Fprintf(os.Stderr, "FileLogWriter(%q): %s\n", w.filename, err)\<close>\<close>

definition report :: "FileLogWriter \<Rightarrow> error \<Rightarrow> World \<Rightarrow> World" where
  "report w err wd = wd\<lparr>stderr := stderr wd @ [(filename w, err)]\<rparr>"

text \<open>The rest of a turn that has received a record, after the check for a rotation:
  sanitize the newlines, perform the write, update the counts.\<close>

definition write_record :: "Time \<Rightarrow> LogRecord \<Rightarrow> FileLogWriter \<Rightarrow> World \<Rightarrow> status \<times> FileLogWriter \<times> World" where
  "write_record now rec w wd =
     (let rec = (if sanitize w
                 then rec\<lparr>Message :=
                        strings_Replace (Message rec) [CHR 0x0A] [CHR 0x5C, CHR ''n'']\<rparr>
                 else rec)
      in case FormatLogRecord (formatCache wd) (format w) (Some rec) of
           Inl p \<Rightarrow> (Panicked p, w, wd)
         | Inr (s, cache, r) \<Rightarrow>
             (let wd = wd\<lparr>formatCache := cache\<rparr>;
                  ((n, err), fsys) = Fprint (file w) s now (fs wd);
                  wd = wd\<lparr>fs := fsys\<rparr>
              in case err of
                   Some e \<Rightarrow> (Returned, w, report w (Plain e) wd)
                 | None \<Rightarrow>
                     (Running,
                      w\<lparr>maxlines_curlines := maxlines_curlines w + 1,
                        maxsize_cursize := maxsize_cursize w + n\<rparr>,
                      wd)))"

text \<open>One turn of the \<^verbatim>\<open>for { select { ... } }\<close> loop.\<close>

definition loop_turn :: "Time \<Rightarrow> event \<Rightarrow> FileLogWriter \<Rightarrow> World \<Rightarrow> status \<times> FileLogWriter \<times> World" where
  "loop_turn now ev w wd =
     (case ev of
        Rot \<Rightarrow>
          (case intRotate now w wd of
             (Err err, w, wd) \<Rightarrow> (Returned, w, report w err wd)
           | (Panic p, w, wd) \<Rightarrow> (Panicked p, w, wd)
           | (Nil, w, wd) \<Rightarrow> (Running, w, wd))
      | Closed \<Rightarrow> (Returned, w, wd)
      | Rec rec \<Rightarrow>
          (if (maxlines w > 0 \<and> maxlines_curlines w \<ge> maxlines w) \<or>
              (maxsize w > 0 \<and> maxsize_cursize w \<ge> maxsize w) \<or>
              (daily w \<and> Day now \<noteq> daily_opendate w)
           then (case intRotate now w wd of
                   (Err err, w, wd) \<Rightarrow> (Returned, w, report w err wd)
                 | (Panic p, w, wd) \<Rightarrow> (Panicked p, w, wd)
                 | (Nil, w, wd) \<Rightarrow> write_record now rec w wd)
           else write_record now rec w wd))"

text \<open>The two deferred calls, run when the goroutine returns or panics: the closure
  that writes the trailer and closes the file, then \<^verbatim>\<open>recoverPanic\<close>, which prints
  the panic it recovers.\<close>

definition deferred :: "Time \<Rightarrow> status \<Rightarrow> FileLogWriter \<Rightarrow> World \<Rightarrow> status \<times> FileLogWriter \<times> World" where
  "deferred now st w wd =
     (let (st, w, wd) =
            (if file w \<noteq> None then
               (case Fprint_template (trailer w) now w wd of
                  Inl p \<Rightarrow> (Panicked p, w, wd)
                | Inr wd \<Rightarrow> (st, w\<lparr>file := os_Close (file w)\<rparr>, wd))
             else (st, w, wd))
      in case st of
           Panicked p \<Rightarrow> (st, w, wd\<lparr>stdout := stdout wd @ [p]\<rparr>)
         | Returned \<Rightarrow> (st, w, wd)
         | Running \<Rightarrow> (st, w, wd))"

text \<open>The goroutine on a sequence of events: how it ends (still running when the
  events are used up), the events it has not read, the writer and the world.\<close>

fun consume :: "(Time \<times> event) list \<Rightarrow> FileLogWriter \<Rightarrow> World \<Rightarrow> status \<times> (Time \<times> event) list \<times> FileLogWriter \<times> World" where
  "consume [] w wd = (Running, [], w, wd)"
| "consume ((now, ev) # evs) w wd =
     (case loop_turn now ev w wd of
        (Running, w, wd) \<Rightarrow> consume evs w wd
      | (Returned, w, wd) \<Rightarrow>
          (case deferred now Returned w wd of (st, w, wd) \<Rightarrow> (st, evs, w, wd))
      | (Panicked p, w, wd) \<Rightarrow>
          (case deferred now (Panicked p) w wd of (st, w, wd) \<Rightarrow> (st, evs, w, wd)))"

text \<open>
  \<^verbatim>\<open>func NewFileLogWriter(fname string, rotate bool, daily bool, maxbackup int) *FileLogWriter\<close>,
  up to the start of the goroutine: the writer (nil when the first \<^verbatim>\<open>intRotate\<close>
  fails) and the world.
\<close>

definition NewFileLogWriter :: "string \<Rightarrow> bool \<Rightarrow> bool \<Rightarrow> int \<Rightarrow> Time \<Rightarrow> World \<Rightarrow> panic + (FileLogWriter option \<times> World)" where
  "NewFileLogWriter fname rot dly maxb now wd =
     (let maxb = (if maxb \<le> 0 then 99 else maxb);
          w = \<lparr>filename = fname, file = None, format = ''[%D %T] [%L] (%S) %M'',
               header = [], trailer = [], maxlines = 0, maxlines_curlines = 0, maxsize = 0,
               maxsize_cursize = 0, daily = dly, daily_opendate = 0, rotate' = rot,
               maxbackup = maxb, currbackup = 0, sanitize = False\<rparr>;
          w = w\<lparr>currbackup := getCurrBackup now (fs wd) w\<rparr>
      in case intRotate now w wd of
           (Err err, w, wd) \<Rightarrow> Inr (None, report w err wd)
         | (Panic p, w, wd) \<Rightarrow> Inl p
         | (Nil, w, wd) \<Rightarrow> Inr (Some w, wd))"

definition SetFormat :: "string \<Rightarrow> FileLogWriter \<Rightarrow> FileLogWriter" where
  "SetFormat fmt w = w\<lparr>format := fmt\<rparr>"

definition SetHeadFoot :: "string \<Rightarrow> string \<Rightarrow> Time \<Rightarrow> FileLogWriter \<Rightarrow> World \<Rightarrow> panic + (FileLogWriter \<times> World)" where
  "SetHeadFoot head foot now w wd =
     (let w = w\<lparr>header := head, trailer := foot\<rparr>
      in if maxlines_curlines w = 0 then
           (case Fprint_template (header w) now w wd of
              Inl p \<Rightarrow> Inl p
            | Inr wd \<Rightarrow> Inr (w, wd))
         else Inr (w, wd))"

definition SetRotateLines :: "int \<Rightarrow> FileLogWriter \<Rightarrow> FileLogWriter" where
  "SetRotateLines n w = w\<lparr>maxlines := n\<rparr>"

definition SetRotateSize :: "int \<Rightarrow> FileLogWriter \<Rightarrow> FileLogWriter" where
  "SetRotateSize n w = w\<lparr>maxsize := n\<rparr>"

definition SetRotateDaily :: "bool \<Rightarrow> FileLogWriter \<Rightarrow> FileLogWriter" where
  "SetRotateDaily b w = w\<lparr>daily := b\<rparr>"

definition SetRotateMaxBackup :: "int \<Rightarrow> FileLogWriter \<Rightarrow> FileLogWriter" where
  "SetRotateMaxBackup n w = w\<lparr>maxbackup := n\<rparr>"

definition SetRotate :: "bool \<Rightarrow> FileLogWriter \<Rightarrow> FileLogWriter" where
  "SetRotate b w = w\<lparr>rotate' := b\<rparr>"

definition SetSanitize :: "bool \<Rightarrow> FileLogWriter \<Rightarrow> FileLogWriter" where
  "SetSanitize b w = w\<lparr>sanitize := b\<rparr>"

definition SetMaxbackup :: "int \<Rightarrow> FileLogWriter \<Rightarrow> FileLogWriter" where
  "SetMaxbackup n w = w\<lparr>maxbackup := n\<rparr>"

section \<open>Calls of the examples, and example inputs\<close>

text \<open>\<^verbatim>\<open>log.LOGGER(category).Info(arg0, args...)\<close>, as the example programs call it.\<close>

definition LOGGER_Info :: "'a Env \<Rightarrow> string \<Rightarrow> 'a arg0 \<Rightarrow> 'a list \<Rightarrow> Registry \<Rightarrow> panic + Registry" where
  "LOGGER_Info E category a args st =
     (case LOGGER category st of Inl p \<Rightarrow> Inl p | Inr (f, st) \<Rightarrow> Info E f a args st)"

text \<open>What one sink gets from a call that passed the level check of its filter, in the
  words of the dispatch rule of the specification: the record when the level is
  strictly above the threshold of the default filter and the sink is the default
  filter's, and the record when the category of the filter is neither DEFAULT nor
  stdout and the sink is the filter's own.\<close>

definition claimed_sends :: "Level \<Rightarrow> Filter \<Rightarrow> Filter \<Rightarrow> LogRecord \<Rightarrow> LogWriter \<Rightarrow> LogRecord list" where
  "claimed_sends lvl default_filter f rec w =
     (if lvl > Filter_Level default_filter \<and> w = Filter_LogWriter default_filter
      then [rec] else []) @
     (if Filter_Category f \<noteq> ''DEFAULT'' \<and> Filter_Category f \<noteq> ''stdout'' \<and>
         w = Filter_LogWriter f
      then [rec] else [])"

text \<open>A clock reading of January 2024, by day of the month and second; its
  \<^verbatim>\<open>Format\<close> knows the layout 20060102 and returns any other layout as it is.\<close>

definition ex_time :: "int \<Rightarrow> int \<Rightarrow> Time" where
  "ex_time d s =
     \<lparr>Year = 2024, Month = 1, Day = d, Hour = 3, Minute = 4, Second = s, Zone = ''UTC'',
      UnixNano = (1704164640 + s) * 1000000000, UnixMicro = (1704164640 + s) * 1000000,
      MonthName = ''January'', Weekday = ''Tuesday'',
      Format = (\<lambda>layout. if layout = ''20060102'' then ''202401'' @ Sprintf_0d 2 d else layout)\<rparr>"

definition ex_env :: "nat Env" where
  "ex_env = \<lparr>Sprintf = (\<lambda>fmt args. fmt), Sprint = (\<lambda>v. ''v''), caller = ''main.main:13'',
             clock = ex_time 2 5\<rparr>"

text \<open>The registry of the claim on category duplication: the default filter at WARNING,
  the category Test at DEBUG, each with a sink of its own.\<close>

definition ex_registry :: Registry where
  "ex_registry =
     \<lparr>Global = [''stdout'' \<mapsto> 0, ''Test'' \<mapsto> 1],
      heap = (\<lambda>a. if a = 0
                  then \<lparr>Filter_Level = WARNING, Filter_LogWriter = 0, Filter_Category = ''DEFAULT''\<rparr>
                  else \<lparr>Filter_Level = DEBUG, Filter_LogWriter = 1, Filter_Category = ''Test''\<rparr>),
      chans = (\<lambda>w. [])\<rparr>"

definition ex_info_record :: "string \<Rightarrow> string \<Rightarrow> LogRecord" where
  "ex_info_record msg cat =
     \<lparr>Level = INFO, Created = ex_time 2 5, Source = ''main.main:13'', Message = msg,
      Category = cat\<rparr>"

text \<open>A file system without files in which no operation is refused, and the world of a
  process that has not logged yet.\<close>

definition ex_fs :: FS where
  "ex_fs = \<lparr>files = Map.empty, rename_fails = (\<lambda>a b. False), open_fails = (\<lambda>a. False)\<rparr>"

definition ex_world :: "FS \<Rightarrow> World" where
  "ex_world fsys = \<lparr>fs = fsys, formatCache = formatCache_init, stderr = [], stdout = []\<rparr>"

text \<open>What a test reads back: the content of the files at some paths.\<close>

definition contents :: "World \<Rightarrow> string list \<Rightarrow> string option list" where
  "contents wd paths = map (\<lambda>p. map_option content (files (fs wd) p)) paths"

text \<open>A file sink as \<^verbatim>\<open>jsonToFileLogWriter\<close> sets it up (\<^verbatim>\<open>NewFileLogWriter\<close>, then
  \<^verbatim>\<open>SetFormat\<close>, \<^verbatim>\<open>SetRotateLines\<close>, \<^verbatim>\<open>SetRotateSize\<close>, \<^verbatim>\<open>SetSanitize\<close>), and
  its goroutine on a sequence of events. None when no writer is created.\<close>

definition file_sink_run :: "string \<Rightarrow> bool \<Rightarrow> bool \<Rightarrow> int \<Rightarrow> string \<Rightarrow> int \<Rightarrow> int \<Rightarrow> bool \<Rightarrow> Time \<Rightarrow> World \<Rightarrow> (Time \<times> event) list \<Rightarrow> (status \<times> (Time \<times> event) list \<times> FileLogWriter \<times> World) option" where
  "file_sink_run fname rot dly maxb fmt maxl maxs san now wd evs =
     (case NewFileLogWriter fname rot dly maxb now wd of
        Inl p \<Rightarrow> None
      | Inr (None, wd) \<Rightarrow> None
      | Inr (Some w, wd) \<Rightarrow>
          Some (consume evs
                  (SetSanitize san (SetRotateSize maxs (SetRotateLines maxl (SetFormat fmt w))))
                  wd))"

text \<open>Three records with the messages a, b and c, each with the clock reading of its
  turn.\<close>

definition ex_three :: "(Time \<times> event) list" where
  "ex_three =
     [(ex_time 2 1, Rec (ex_info_record ''a'' [])), (ex_time 2 2, Rec (ex_info_record ''b'' [])),
      (ex_time 2 3, Rec (ex_info_record ''c'' []))]"

text \<open>A file system that holds a log file written the day before.\<close>

definition ex_old_log :: FS where
  "ex_old_log =
     ex_fs\<lparr>files := [''app.log'' \<mapsto> \<lparr>content = ''x'' @ [CHR 0x0A], ModTime = ex_time 1 0\<rparr>]\<rparr>"

text \<open>A file system that holds a first backup and refuses to rename it to the second.\<close>

definition ex_stuck_backup :: FS where
  "ex_stuck_backup =
     \<lparr>files = [''app.log.1'' \<mapsto> \<lparr>content = ''old'' @ [CHR 0x0A], ModTime = ex_time 1 0\<rparr>],
      rename_fails = (\<lambda>a b. a = ''app.log.1'' \<and> b = ''app.log.2''),
      open_fails = (\<lambda>a. False)\<rparr>"


text \<open>A sink with \<^verbatim>\<open>SetSanitize(true)\<close> that has opened app.log, and the world with
  that empty file.\<close>

definition ex_sanitizing_writer :: FileLogWriter where
  "ex_sanitizing_writer =
     \<lparr>filename = ''app.log'', file = Some (Handle ''app.log'' True),
      format = ''[%D %T] [%L] (%S) %M'', header = [], trailer = [], maxlines = 0,
      maxlines_curlines = 0, maxsize = 0, maxsize_cursize = 0, daily = False,
      daily_opendate = 2, rotate' = False, maxbackup = 99, currbackup = 1, sanitize = True\<rparr>"

definition ex_open_log :: World where
  "ex_open_log =
     ex_world (ex_fs\<lparr>files := [''app.log'' \<mapsto> \<lparr>content = [], ModTime = ex_time 2 0\<rparr>]\<rparr>)"

section \<open>Properties of the category router\<close>

lemma levels [simp]:
  "FINEST = 0" "FINE = 1" "DEBUG = 2" "TRACE = 3" "INFO = 4" "WARNING = 5" "ERROR = 6"
  "CRITICAL = 7"
  by (simp_all add: FINEST_def FINE_def DEBUG_def TRACE_def INFO_def WARNING_def ERROR_def
      CRITICAL_def)

text \<open>What each of the three dispatching bodies appends to every channel, once the level
  check of the filter has passed and the default filter exists.\<close>

lemma intLogf_sends:
  assumes "Global st ''stdout'' = Some d" and "Filter_Level (heap st f) \<le> lvl"
  shows "\<exists>st'. intLogf E f lvl fmt args st = Inr st' \<and>
           Global st' = Global st \<and> heap st' = heap st \<and>
           (\<forall>w. chans st' w = chans st w @
                  claimed_sends lvl (heap st d) (heap st f)
                    \<lparr>Level = lvl, Created = clock E, Source = caller E,
                      Message = (if length args > 0 then Sprintf E fmt args else fmt),
                      Category = Filter_Category (heap st f)\<rparr> w)"
  using assms by (simp add: intLogf_def LogWrite_def claimed_sends_def Let_def)

lemma intLogc_sends:
  assumes "Global st ''stdout'' = Some d" and "Filter_Level (heap st f) \<le> lvl"
  shows "\<exists>st'. intLogc E f lvl cl st = Inr st' \<and>
           Global st' = Global st \<and> heap st' = heap st \<and>
           (\<forall>w. chans st' w = chans st w @
                  claimed_sends lvl (heap st d) (heap st f)
                    \<lparr>Level = lvl, Created = clock E, Source = caller E, Message = cl (),
                      Category = Filter_Category (heap st f)\<rparr> w)"
  using assms by (simp add: intLogc_def LogWrite_def claimed_sends_def Let_def)

lemma Log_sends:
  assumes "Global st ''stdout'' = Some d" and "Filter_Level (heap st f) \<le> lvl"
  shows "\<exists>st'. Log E f lvl src msg st = Inr st' \<and>
           Global st' = Global st \<and> heap st' = heap st \<and>
           (\<forall>w. chans st' w = chans st w @
                  claimed_sends lvl (heap st d) (heap st f)
                    \<lparr>Level = lvl, Created = clock E, Source = src, Message = msg,
                      Category = Filter_Category (heap st f)\<rparr> w)"
  using assms by (simp add: Log_def LogWrite_def claimed_sends_def Let_def)

text \<open>
  Claim C2. A call of \<^verbatim>\<open>intLogf\<close>, \<^verbatim>\<open>intLogc\<close> or \<^verbatim>\<open>Log\<close> (every leveled method
  ends in one of the first two) whose level is at least the threshold of its filter
  returns, and appends to the channel of every sink exactly what the dispatch rule
  says: the record for the sink of the default filter if and only if the level is
  strictly above the default threshold, followed by the record for the filter's own
  sink if and only if the filter's category is neither DEFAULT nor stdout. Nothing else
  of the registry changes.
\<close>

theorem dispatch_rule:
  assumes "Global st ''stdout'' = Some d" and "Filter_Level (heap st f) \<le> lvl"
  shows
    "(\<exists>st'. intLogf E f lvl fmt args st = Inr st' \<and>
        Global st' = Global st \<and> heap st' = heap st \<and>
        (\<forall>w. chans st' w = chans st w @
               claimed_sends lvl (heap st d) (heap st f)
                 \<lparr>Level = lvl, Created = clock E, Source = caller E,
                   Message = (if length args > 0 then Sprintf E fmt args else fmt),
                   Category = Filter_Category (heap st f)\<rparr> w)) \<and>
     (\<exists>st'. intLogc E f lvl cl st = Inr st' \<and>
        Global st' = Global st \<and> heap st' = heap st \<and>
        (\<forall>w. chans st' w = chans st w @
               claimed_sends lvl (heap st d) (heap st f)
                 \<lparr>Level = lvl, Created = clock E, Source = caller E, Message = cl (),
                   Category = Filter_Category (heap st f)\<rparr> w)) \<and>
     (\<exists>st'. Log E f lvl src msg st = Inr st' \<and>
        Global st' = Global st \<and> heap st' = heap st \<and>
        (\<forall>w. chans st' w = chans st w @
               claimed_sends lvl (heap st d) (heap st f)
                 \<lparr>Level = lvl, Created = clock E, Source = src, Message = msg,
                   Category = Filter_Category (heap st f)\<rparr> w))"
  using intLogf_sends [OF assms] intLogc_sends [OF assms] Log_sends [OF assms]
  by blast

text \<open>The rule at the registry of the example, for an ERROR record sent to the category
  Test: both sinks get the record once.\<close>

theorem dispatch_rule_witness:
  "Global ex_registry ''stdout'' = Some 0 \<and> Filter_Level (heap ex_registry 1) \<le> ERROR \<and>
   (\<exists>st'. intLogf ex_env 1 ERROR ''m'' [] ex_registry = Inr st' \<and>
      chans st' 0 = [\<lparr>Level = ERROR, Created = ex_time 2 5, Source = ''main.main:13'',
                       Message = ''m'', Category = ''Test''\<rparr>] \<and>
      chans st' 1 = [\<lparr>Level = ERROR, Created = ex_time 2 5, Source = ''main.main:13'',
                       Message = ''m'', Category = ''Test''\<rparr>])"
proof -
  have g: "Global ex_registry ''stdout'' = Some 0"
    and l: "Filter_Level (heap ex_registry 1) \<le> ERROR"
    by (simp_all add: ex_registry_def)
  from dispatch_rule [OF g l, of ex_env "''m''" "[]"]
  obtain st' where st': "intLogf ex_env 1 ERROR ''m'' [] ex_registry = Inr st'"
    and ch: "\<And>w. chans st' w = chans ex_registry w @
               claimed_sends ERROR (heap ex_registry 0) (heap ex_registry 1)
                 \<lparr>Level = ERROR, Created = clock ex_env, Source = caller ex_env,
                   Message = (if length ([] :: nat list) > 0 then Sprintf ex_env ''m'' [] else ''m''),
                   Category = Filter_Category (heap ex_registry 1)\<rparr> w"
    by blast
  have "chans st' 0 = [\<lparr>Level = ERROR, Created = ex_time 2 5, Source = ''main.main:13'',
                       Message = ''m'', Category = ''Test''\<rparr>]"
    and "chans st' 1 = [\<lparr>Level = ERROR, Created = ex_time 2 5, Source = ''main.main:13'',
                       Message = ''m'', Category = ''Test''\<rparr>]"
    by (simp_all add: ch claimed_sends_def ex_registry_def ex_env_def)
  with g l st' show ?thesis by blast
qed

text \<open>
  Claim C10. For a call that passes the level check of its filter: when the level is
  not strictly above the threshold of the default filter and the category of the
  filter is DEFAULT or stdout, \<^verbatim>\<open>intLogf\<close> and \<^verbatim>\<open>intLogc\<close> return the registry as
  it was, so no sink receives the record. In particular the filter that \<^verbatim>\<open>LOGGER\<close>
  returns for an unregistered category or for stdout is the default filter, and a
  record logged through it at exactly its threshold is dropped.
\<close>

theorem passed_gate_dropped:
  assumes "Global st ''stdout'' = Some d"
  shows
    "(Filter_Level (heap st f) \<le> lvl \<and> \<not> lvl > Filter_Level (heap st d) \<and>
      (Filter_Category (heap st f) = ''DEFAULT'' \<or> Filter_Category (heap st f) = ''stdout'')
      \<longrightarrow> intLogf E f lvl fmt args st = Inr st \<and> intLogc E f lvl cl st = Inr st) \<and>
     (Global st c = None \<or> c = ''stdout''
      \<longrightarrow> (\<exists>st1. LOGGER c st = Inr (d, st1) \<and> chans st1 = chans st \<and>
                 intLogf E d (Filter_Level (heap st d)) fmt args st1 = Inr st1 \<and>
                 intLogc E d (Filter_Level (heap st d)) cl st1 = Inr st1))"
  using assms
  by (auto simp: intLogf_def intLogc_def LOGGER_def Let_def)

text \<open>At the registry of the example: a WARNING record through the default filter, and
  through the filter of the unregistered category Other.\<close>

theorem passed_gate_dropped_witness:
  "Global ex_registry ''stdout'' = Some 0 \<and>
   Filter_Level (heap ex_registry 0) \<le> WARNING \<and>
   \<not> WARNING > Filter_Level (heap ex_registry 0) \<and>
   Filter_Category (heap ex_registry 0) = ''DEFAULT'' \<and>
   intLogf ex_env 0 WARNING ''m'' [] ex_registry = Inr ex_registry \<and>
   intLogc ex_env 0 WARNING (\<lambda>u. ''m'') ex_registry = Inr ex_registry \<and>
   Global ex_registry ''Other'' = None \<and>
   (\<exists>st1. LOGGER ''Other'' ex_registry = Inr (0, st1) \<and> chans st1 = chans ex_registry \<and>
          intLogf ex_env 0 WARNING ''m'' [] st1 = Inr st1 \<and>
          intLogc ex_env 0 WARNING (\<lambda>u. ''m'') st1 = Inr st1)"
proof -
  have g: "Global ex_registry ''stdout'' = Some 0"
    and h: "Filter_Level (heap ex_registry 0) \<le> WARNING"
      "\<not> WARNING > Filter_Level (heap ex_registry 0)"
      "Filter_Category (heap ex_registry 0) = ''DEFAULT''"
      "Global ex_registry ''Other'' = None"
      "Filter_Level (heap ex_registry 0) = WARNING"
    by (simp_all add: ex_registry_def)
  show ?thesis
    using g h
      passed_gate_dropped [OF g, where f = 0 and lvl = WARNING and c = "''Other''"
        and E = ex_env and fmt = "''m''" and args = "[]" and cl = "\<lambda>u. ''m''"]
    by simp
qed

text \<open>
  Claim C1 does not hold: \<^verbatim>\<open>intLogf\<close> sends to the default sink only when the level
  is strictly above the default threshold, and INFO is below WARNING. At the registry
  of the example, \<^verbatim>\<open>LOGGER("Test").Info(...)\<close> leaves the channel of the default sink
  empty and puts the record on the channel of the category's sink.
\<close>

theorem category_duplication_counterexample:
  "(case LOGGER_Info ex_env ''Test'' (String ''category Test info test ...'') [] ex_registry of
      Inl p \<Rightarrow> None
    | Inr st \<Rightarrow> Some (chans st 0, chans st 1)) =
   Some ([], [ex_info_record ''category Test info test ...'' ''Test''])"
  by (simp add: LOGGER_Info_def LOGGER_def Info_def intLogf_def LogWrite_def ex_registry_def
      ex_env_def ex_info_record_def Let_def)

text \<open>
  Claim C1 as amended. In a registry where a category other than DEFAULT and stdout is
  registered with a filter of threshold DEBUG, the default filter has threshold WARNING
  and the two filters have different sinks, every \<^verbatim>\<open>LOGGER(category).Info(...)\<close>
  puts one record of level INFO and of that category on the channel of the category's
  own sink, and leaves the channel of the default sink as it was.
\<close>

theorem category_info_own_sink_only:
  assumes "Global st c = Some a" and "Global st ''stdout'' = Some d"
    and "c \<noteq> ''DEFAULT''" and "c \<noteq> ''stdout''"
    and "Filter_Level (heap st a) = DEBUG" and "Filter_Level (heap st d) = WARNING"
    and "Filter_LogWriter (heap st a) \<noteq> Filter_LogWriter (heap st d)"
  shows "\<exists>st' rec. LOGGER_Info E c a0 args st = Inr st' \<and>
           Level rec = INFO \<and> Category rec = c \<and>
           chans st' (Filter_LogWriter (heap st a)) =
             chans st (Filter_LogWriter (heap st a)) @ [rec] \<and>
           chans st' (Filter_LogWriter (heap st d)) = chans st (Filter_LogWriter (heap st d))"
proof -
  have "a \<noteq> d" using assms(5,6) by auto
  then show ?thesis
    using assms
    by (cases a0)
       (auto simp: LOGGER_Info_def LOGGER_def Info_def intLogf_def intLogc_def LogWrite_def
          Let_def)
qed

theorem category_info_own_sink_only_witness:
  "Global ex_registry ''Test'' = Some 1 \<and> Global ex_registry ''stdout'' = Some 0 \<and>
   Filter_Level (heap ex_registry 1) = DEBUG \<and> Filter_Level (heap ex_registry 0) = WARNING \<and>
   Filter_LogWriter (heap ex_registry 1) \<noteq> Filter_LogWriter (heap ex_registry 0) \<and>
   (\<exists>st' rec. LOGGER_Info ex_env ''Test'' (String ''m'') [] ex_registry = Inr st' \<and>
           Level rec = INFO \<and> Category rec = ''Test'' \<and>
           chans st' (Filter_LogWriter (heap ex_registry 1)) =
             chans ex_registry (Filter_LogWriter (heap ex_registry 1)) @ [rec] \<and>
           chans st' (Filter_LogWriter (heap ex_registry 0)) =
             chans ex_registry (Filter_LogWriter (heap ex_registry 0)))"
proof -
  have h: "Global ex_registry ''Test'' = Some 1" "Global ex_registry ''stdout'' = Some 0"
    "Filter_Level (heap ex_registry 1) = DEBUG" "Filter_Level (heap ex_registry 0) = WARNING"
    "Filter_LogWriter (heap ex_registry 1) \<noteq> Filter_LogWriter (heap ex_registry 0)"
    by (simp_all add: ex_registry_def)
  have n: "''Test'' \<noteq> ''DEFAULT''" "''Test'' \<noteq> ''stdout''" by simp_all
  show ?thesis
    using h category_info_own_sink_only [OF h(1) h(2) n h(3) h(4) h(5), of ex_env "String ''m''" "[]"]
    by simp
qed

section \<open>Properties of the format template engine\<close>




text \<open>A pattern without an opening brace has no \<^verbatim>\<open>%D{...}\<close> to replace.\<close>

lemma dttm_replace_no_brace: "CHR ''{'' \<notin> set s \<Longrightarrow> dttm_replace created i s = s"
proof (induction s)
  case Nil
  then show ?case by (simp add: dttm_replace.simps)
next
  case (Cons c cs)
  have ne: "take 3 (c # cs) \<noteq> ''%D{''"
  proof
    assume "take 3 (c # cs) = ''%D{''"
    then have "CHR ''{'' \<in> set (take 3 (c # cs))" by simp
    then have "CHR ''{'' \<in> set (c # cs)" by (rule in_set_takeD)
    with Cons.prems show False by simp
  qed
  have "dttm_replace created i (c # cs) = c # dttm_replace created i cs"
    by (subst dttm_replace.simps) (simp only: list.case ne if_False)
  with Cons show ?case by simp
qed

lemma changeDttmFormat_no_brace: "CHR ''{'' \<notin> set s \<Longrightarrow> changeDttmFormat s rec = s"
  by (simp add: changeDttmFormat_def dttm_replace_no_brace)

















text \<open>The \<^verbatim>\<open>C\<close> directive is the only one that changes the record, and \<^verbatim>\<open>L\<close> the
  only one that can panic: with a level of the table no directive does.\<close>

lemma directive_category:
  assumes "0 \<le> Level rec" and "Level rec < int (length levelStrings)"
  shows "\<exists>s. directive cache c rec =
           Inr (s, if c = CHR ''C'' \<and> Category rec = []
                   then rec\<lparr>Category := ''DEFAULT''\<rparr> else rec)"
  using assms by (simp add: directive_def Let_def)

lemma pieces_loop_category:
  assumes "0 \<le> Level rec" and "Level rec < int (length levelStrings)"
  shows "\<exists>out'. pieces_loop cache i ps out rec =
           Inr (out', if list_ex (\<lambda>p. p \<noteq> [] \<and> hd p = CHR ''C'') (if i = 0 then tl ps else ps) \<and>
                         Category rec = []
                      then rec\<lparr>Category := ''DEFAULT''\<rparr> else rec)"
  using assms
proof (induction ps arbitrary: i out rec)
  case Nil
  then show ?case by simp
next
  case (Cons p ps)
  show ?case
  proof (cases "i > 0 \<and> length p > 0")
    case True
    let ?r = "if hd p = CHR ''C'' \<and> Category rec = []
              then rec\<lparr>Category := ''DEFAULT''\<rparr> else rec"
    from directive_category [OF Cons.prems, of cache "hd p"]
    obtain s where s: "directive cache (hd p) rec = Inr (s, ?r)"
      by blast
    have lv: "0 \<le> Level ?r" "Level ?r < int (length levelStrings)"
      using Cons.prems by auto
    from Cons.IH [OF lv, of "i + 1" "out @ s @ (if length p > 1 then tl p else [])"]
    show ?thesis using True s by auto
  next
    case False
    from Cons.IH [OF Cons.prems, of "i + 1"]
    show ?thesis using False
      by (cases "i = 0") (auto split: if_splits)
  qed
qed

text \<open>For a non-empty pattern the result is the loop over the pieces of the pattern, run
  with some cache, and a line feed.\<close>

lemma FormatLogRecord_loop:
  assumes "fmt \<noteq> []"
  shows "\<exists>c. FormatLogRecord cache fmt (Some rec) =
           (case pieces_loop c 0 (Split (changeDttmFormat fmt rec) CHR ''%'') [] rec of
              Inl p \<Rightarrow> Inl p
            | Inr (out, rec') \<Rightarrow> Inr (out @ [CHR 0x0A], c, Some rec'))"
proof (cases "LastUpdateSeconds cache \<noteq> go_div (UnixNano (Created rec)) 1000000000")
  case True
  show ?thesis
    unfolding FormatLogRecord_def Let_def
    using assms True by (simp only: option.case length_0_conv if_False if_True) (rule exI, rule refl)
next
  case False
  show ?thesis
    unfolding FormatLogRecord_def Let_def
    using assms False by (simp only: option.case length_0_conv if_False if_True) (rule exI, rule refl)
qed

lemma FormatLogRecord_category:
  assumes "Category rec = []" and "0 \<le> Level rec" and "Level rec < int (length levelStrings)"
  shows "\<exists>out cache'. FormatLogRecord cache fmt (Some rec) =
           Inr (out, cache',
                Some (if fmt \<noteq> [] \<and>
                         list_ex (\<lambda>p. p \<noteq> [] \<and> hd p = CHR ''C'')
                           (tl (Split (changeDttmFormat fmt rec) CHR ''%''))
                      then rec\<lparr>Category := ''DEFAULT''\<rparr> else rec))"
proof (cases "fmt = []")
  case True
  then show ?thesis by (simp add: FormatLogRecord_def)
next
  case False
  from FormatLogRecord_loop [OF False, of cache rec]
  obtain c where c: "FormatLogRecord cache fmt (Some rec) =
           (case pieces_loop c 0 (Split (changeDttmFormat fmt rec) CHR ''%'') [] rec of
              Inl p \<Rightarrow> Inl p
            | Inr (out, rec') \<Rightarrow> Inr (out @ [CHR 0x0A], c, Some rec'))"
    by blast
  from pieces_loop_category [OF assms(2,3), of c 0 "Split (changeDttmFormat fmt rec) CHR ''%''" "[]"]
  show ?thesis using False assms(1) by (auto simp: c)
qed

text \<open>
  Claim C9 does not hold for every pattern: the category is patched by the \<^verbatim>\<open>C\<close>
  directive only. The pattern \<^verbatim>\<open>[%L] %M\<close> leaves the empty category of the record of
  the example empty.
\<close>

theorem category_default_counterexample:
  "map_sum id (\<lambda>(out, cache, r). map_option Category r)
     (FormatLogRecord formatCache_init ''[%L] %M'' (Some (ex_info_record ''hello'' []))) =
   Inr (Some [])"
  by (simp add: FormatLogRecord_def changeDttmFormat_no_brace directive_def Let_def
      levelStrings_def ex_info_record_def)

text \<open>
  Claim C9 as amended. For every pattern and every record with an empty category and a
  level of the table of level names, \<^verbatim>\<open>FormatLogRecord\<close> returns, and the record
  after the call is the record with the category DEFAULT when the pattern is not empty
  and, after the replacement of \<^verbatim>\<open>%D{...}\<close>, holds a \<^verbatim>\<open>%C\<close> directive; otherwise it
  is the record as it was, with its empty category.
\<close>

theorem category_default_when_rendered:
  assumes "Category rec = []" and "0 \<le> Level rec" and "Level rec < int (length levelStrings)"
  shows "\<exists>out cache'. FormatLogRecord cache fmt (Some rec) =
           Inr (out, cache',
                Some (if fmt \<noteq> [] \<and>
                         list_ex (\<lambda>p. p \<noteq> [] \<and> hd p = CHR ''C'')
                           (tl (Split (changeDttmFormat fmt rec) CHR ''%''))
                      then rec\<lparr>Category := ''DEFAULT''\<rparr> else rec))"
  using assms by (rule FormatLogRecord_category)

text \<open>The console pattern of the package, with its \<^verbatim>\<open>%C\<close>, on the record of the
  example.\<close>

theorem category_default_when_rendered_witness:
  "Category (ex_info_record ''hello'' []) = [] \<and> 0 \<le> Level (ex_info_record ''hello'' []) \<and>
   Level (ex_info_record ''hello'' []) < int (length levelStrings) \<and>
   map_sum id (\<lambda>(out, cache, r). map_option Category r)
     (FormatLogRecord formatCache_init ''[%T %D] [%C] [%L] (%S) %M''
        (Some (ex_info_record ''hello'' []))) = Inr (Some ''DEFAULT'')"
proof -
  have h: "Category (ex_info_record ''hello'' []) = []" "0 \<le> Level (ex_info_record ''hello'' [])"
    "Level (ex_info_record ''hello'' []) < int (length levelStrings)"
    by (simp_all add: ex_info_record_def levelStrings_def)
  have s: "changeDttmFormat ''[%T %D] [%C] [%L] (%S) %M'' (ex_info_record ''hello'' []) =
           ''[%T %D] [%C] [%L] (%S) %M''"
    by (rule changeDttmFormat_no_brace) simp
  from category_default_when_rendered [OF h, of formatCache_init "''[%T %D] [%C] [%L] (%S) %M''"]
  have "map_sum id (\<lambda>(out, cache, r). map_option Category r)
     (FormatLogRecord formatCache_init ''[%T %D] [%C] [%L] (%S) %M''
        (Some (ex_info_record ''hello'' []))) = Inr (Some ''DEFAULT'')"
    by (auto simp: s)
  with h show ?thesis by blast
qed

section \<open>Properties of the rotating file sink\<close>

lemmas sink_defs = NewFileLogWriter_def intRotate_def rotate_close_def rotate_rename_def
  rotate_open_def os_Stat_def os_Lstat_def os_Rename_def os_OpenFile_def os_Close_def
  Fprint_def Fprint_template_def fileExist_def os_IsExist_def getCurrBackup_def
  getCurrBackup_loop.simps shift_backups.simps Itoa_def decimal.simps loop_turn_def
  write_record_def deferred_def report_def blank_record_def SetFormat_def SetRotateLines_def
  SetRotateSize_def SetSanitize_def file_sink_run_def contents_def ex_fs_def ex_world_def
  ex_time_def ex_info_record_def ex_three_def ex_old_log_def ex_stuck_backup_def
  FormatLogRecord_def Let_def Sprintf_0d_def

lemma FormatLogRecord_returns:
  assumes "0 \<le> Level rec" and "Level rec < int (length levelStrings)"
  shows "\<exists>out cache' rec'. FormatLogRecord cache fmt (Some rec) = Inr (out, cache', Some rec')"
proof (cases "fmt = []")
  case True
  then show ?thesis by (simp add: FormatLogRecord_def)
next
  case False
  from FormatLogRecord_loop [OF False, of cache rec]
  obtain c where c: "FormatLogRecord cache fmt (Some rec) =
           (case pieces_loop c 0 (Split (changeDttmFormat fmt rec) CHR ''%'') [] rec of
              Inl p \<Rightarrow> Inl p
            | Inr (out, rec') \<Rightarrow> Inr (out @ [CHR 0x0A], c, Some rec'))"
    by blast
  from pieces_loop_category [OF assms, of c 0 "Split (changeDttmFormat fmt rec) CHR ''%''" "[]"]
  show ?thesis by (auto simp: c)
qed

lemma snd_Fprint_empty [simp]: "snd (Fprint fd [] now fsys) = fsys"
  by (auto simp: Fprint_def map_upd_triv split: option.splits os_File.splits)

lemma Fprint_template_empty [simp]: "Fprint_template [] now w wd = Inr wd"
  by (simp add: Fprint_template_def FormatLogRecord_def)

lemma Fprint_template_returns:
  "\<exists>s c. Fprint_template t now w wd =
     Inr (wd\<lparr>fs := snd (Fprint (file w) s now (fs wd)), formatCache := c\<rparr>)"
proof -
  have "0 \<le> Level (blank_record now)" "Level (blank_record now) < int (length levelStrings)"
    by (simp_all add: blank_record_def levelStrings_def)
  from FormatLogRecord_returns [OF this, of "formatCache wd" t]
  obtain out cache' rec' where
    "FormatLogRecord (formatCache wd) t (Some (blank_record now)) = Inr (out, cache', Some rec')"
    by blast
  then have "Fprint_template t now w wd =
     Inr (wd\<lparr>fs := snd (Fprint (file w) out now (fs wd)), formatCache := cache'\<rparr>)"
    by (simp add: Fprint_template_def)
  then show ?thesis by blast
qed

lemma Fprint_frame:
  "rename_fails (snd (Fprint fd s now fsys)) = rename_fails fsys"
  "open_fails (snd (Fprint fd s now fsys)) = open_fails fsys"
  by (auto simp: Fprint_def split: option.splits os_File.splits)


lemma write_record_open:
  assumes "file w = Some (Handle name True)" and "files (fs wd) name = Some f"
    and "0 \<le> Level rec" and "Level rec < int (length levelStrings)"
  shows "\<exists>s c q.
     FormatLogRecord (formatCache wd) (format w)
        (Some (if sanitize w
               then rec\<lparr>Message := strings_Replace (Message rec) [CHR 0x0A] [CHR 0x5C, CHR ''n'']\<rparr>
               else rec)) = Inr (s, c, q) \<and>
     write_record now rec w wd =
       (Running,
        w\<lparr>maxlines_curlines := maxlines_curlines w + 1,
          maxsize_cursize := maxsize_cursize w + int (length s)\<rparr>,
        wd\<lparr>formatCache := c,
           fs := (fs wd)\<lparr>files := (files (fs wd))(name \<mapsto>
                   f\<lparr>content := content f @ s,
                     ModTime := (if s = [] then ModTime f else now)\<rparr>)\<rparr>\<rparr>)"
proof -
  let ?r = "if sanitize w
               then rec\<lparr>Message := strings_Replace (Message rec) [CHR 0x0A] [CHR 0x5C, CHR ''n'']\<rparr>
               else rec"
  have "0 \<le> Level ?r" "Level ?r < int (length levelStrings)" using assms(3,4) by auto
  from FormatLogRecord_returns [OF this, of "formatCache wd" "format w"]
  obtain s c q where "FormatLogRecord (formatCache wd) (format w) (Some ?r) = Inr (s, c, Some q)"
    by blast
  then show ?thesis
    using assms(1,2) by (auto simp: write_record_def Fprint_def Let_def)
qed


lemma Itoa_1 [simp]: "Itoa 1 = ''1''"
  by (simp add: Itoa_def decimal.simps)









text \<open>\<^verbatim>\<open>intRotate\<close> always gets past its first block.\<close>

lemma rotate_close_returns: "\<exists>w1 wd1. rotate_close now w wd = Inr (w1, wd1)"
  using Fprint_template_returns [of "trailer w" now w wd]
  by (auto simp: rotate_close_def)









text \<open>The decimal numerals of two natural numbers differ, so the backup names
  \<^verbatim>\<open><name>.<N>\<close> of different \<^verbatim>\<open>N\<close> are different paths.\<close>

lemma decimal_length: "length (decimal n) = (if n < 10 then 1 else Suc (length (decimal (n div 10))))"
  by (subst decimal.simps) simp

lemma decimal_not_Nil [simp]: "decimal n \<noteq> []"
  by (subst decimal.simps) simp

lemma digit_inj: "a < 10 \<Longrightarrow> b < 10 \<Longrightarrow> ''0123456789'' ! a = ''0123456789'' ! b \<Longrightarrow> a = (b::nat)"
proof -
  have d: "distinct ''0123456789''" by simp
  assume "a < 10" "b < 10" "''0123456789'' ! a = ''0123456789'' ! b"
  with d show ?thesis by (simp add: nth_eq_iff_index_eq)
qed

lemma decimal_inj: "decimal m = decimal n \<Longrightarrow> m = n"
proof (induction m arbitrary: n rule: decimal.induct)
  case (1 m)
  show ?case
  proof (cases "m < 10")
    case True
    then have "length (decimal m) = 1" by (simp add: decimal_length)
    with 1(2) have l: "length (decimal n) = 1" by simp
    have n: "n < 10"
    proof (rule ccontr)
      assume "\<not> n < 10"
      then have "length (decimal n) = Suc (length (decimal (n div 10)))" by (simp add: decimal_length)
      with l show False by simp
    qed
    have "decimal m = [''0123456789'' ! m]" using True by (subst decimal.simps) simp
    moreover have "decimal n = [''0123456789'' ! n]" using n by (subst decimal.simps) simp
    ultimately have "''0123456789'' ! m = ''0123456789'' ! n" using 1(2) by simp
    with True n show ?thesis by (rule digit_inj)
  next
    case False
    have n: "\<not> n < 10"
    proof
      assume "n < 10"
      then have "length (decimal n) = 1" by (simp add: decimal_length)
      moreover from False have "length (decimal m) = Suc (length (decimal (m div 10)))"
        by (simp add: decimal_length)
      ultimately show False using 1(2) by simp
    qed
    have "decimal m = decimal (m div 10) @ [''0123456789'' ! (m mod 10)]"
      using False by (subst decimal.simps) simp
    moreover have "decimal n = decimal (n div 10) @ [''0123456789'' ! (n mod 10)]"
      using n by (subst decimal.simps) simp
    ultimately have e: "decimal (m div 10) = decimal (n div 10)"
      and d: "''0123456789'' ! (m mod 10) = ''0123456789'' ! (n mod 10)"
      using 1(2) by simp_all
    from 1(1) [OF False e] have "m div 10 = n div 10" .
    moreover from d have "m mod 10 = n mod 10" by (intro digit_inj) simp_all
    ultimately show ?thesis by (metis div_mult_mod_eq)
  qed
qed

lemma Itoa_inj: "0 \<le> m \<Longrightarrow> 0 \<le> n \<Longrightarrow> Itoa m = Itoa n \<Longrightarrow> m = n"
  by (auto simp: Itoa_def dest!: decimal_inj)

lemma Itoa_not_Nil [simp]: "Itoa n \<noteq> []"
  by (simp add: Itoa_def)

lemma Itoa_eq_iff [simp]: "0 \<le> m \<Longrightarrow> 0 \<le> n \<Longrightarrow> (Itoa m = Itoa n) = (m = n)"
  by (auto dest: Itoa_inj)

text \<open>The loop over the backups where no rename is refused: it ends with the name
  \<^verbatim>\<open><name>.1\<close> free and in \<^verbatim>\<open>fname\<close>, every backup \<^verbatim>\<open><name>.<N>\<close> that
  existed for \<^verbatim>\<open>N\<close> from \<^verbatim>\<open>num\<close> down to 1 is at \<^verbatim>\<open><name>.<N+1>\<close>, and no
  other path has changed.\<close>

lemma shift_backups_done: "num < 1 \<Longrightarrow> shift_backups name num fname fsys = (fname, fsys)"
  by (subst shift_backups.simps) simp

lemma shift_backups_step:
  assumes "1 \<le> num"
  shows "shift_backups name num fname fsys =
     shift_backups name (num - 1) (name @ ''.'' @ Itoa num)
       (case files fsys (name @ ''.'' @ Itoa num) of
          None \<Rightarrow> fsys
        | Some f \<Rightarrow>
            if rename_fails fsys (name @ ''.'' @ Itoa num) (name @ ''.'' @ Itoa (num + 1)) then fsys
            else fsys\<lparr>files := ((files fsys)(name @ ''.'' @ Itoa (num + 1) \<mapsto> f))
                                 (name @ ''.'' @ Itoa num := None)\<rparr>)"
  using assms
  by (subst shift_backups.simps)
     (simp add: os_Lstat_def os_Rename_def Let_def split: option.splits)

lemma shift_backups_chain:
  assumes "\<forall>a b. \<not> rename_fails fsys a b" and "n = nat num"
  shows "(1 \<le> num \<longrightarrow> fst (shift_backups name num fname fsys) = name @ ''.'' @ Itoa 1 \<and>
            files (snd (shift_backups name num fname fsys)) (name @ ''.'' @ Itoa 1) = None) \<and>
         (\<forall>N f. 1 \<le> N \<and> N \<le> num \<and> files fsys (name @ ''.'' @ Itoa N) = Some f \<longrightarrow>
            files (snd (shift_backups name num fname fsys)) (name @ ''.'' @ Itoa (N + 1)) = Some f) \<and>
         (\<forall>p. (\<forall>k. 1 \<le> k \<and> k \<le> num + 1 \<longrightarrow> p \<noteq> name @ ''.'' @ Itoa k) \<longrightarrow>
            files (snd (shift_backups name num fname fsys)) p = files fsys p) \<and>
         rename_fails (snd (shift_backups name num fname fsys)) = rename_fails fsys \<and>
         open_fails (snd (shift_backups name num fname fsys)) = open_fails fsys"
  using assms
proof (induction n arbitrary: num fname fsys)
  case 0
  then have "num < 1" by simp
  then show ?case by (auto simp: shift_backups_done)
next
  case (Suc n)
  then have num: "1 \<le> num" and n: "n = nat (num - 1)" by simp_all
  let ?old = "name @ ''.'' @ Itoa num"
  let ?new = "name @ ''.'' @ Itoa (num + 1)"
  let ?fsys1 = "case files fsys ?old of
          None \<Rightarrow> fsys
        | Some f \<Rightarrow>
            if rename_fails fsys ?old ?new then fsys
            else fsys\<lparr>files := ((files fsys)(?new \<mapsto> f))(?old := None)\<rparr>"
  have st: "shift_backups name num fname fsys = shift_backups name (num - 1) ?old ?fsys1"
    using num by (rule shift_backups_step)
  have nf: "\<forall>a b. \<not> rename_fails ?fsys1 a b"
    using Suc.prems(1) by (simp split: option.splits)
  note IH = Suc.IH [OF nf n, of ?old]
  have f1_old: "files ?fsys1 ?old = None"
    using Suc.prems(1) num by (simp split: option.splits)
  have f1_new: "files fsys ?old = Some f \<Longrightarrow> files ?fsys1 ?new = Some f" for f
    using Suc.prems(1) num by simp
  have f1_other: "p \<noteq> ?old \<Longrightarrow> p \<noteq> ?new \<Longrightarrow> files ?fsys1 p = files fsys p" for p
    by (simp split: option.splits)
  have f1_rf: "rename_fails ?fsys1 = rename_fails fsys" "open_fails ?fsys1 = open_fails fsys"
    by (simp_all split: option.splits)
  show ?case
  proof (intro conjI impI allI)
    show "fst (shift_backups name num fname fsys) = name @ ''.'' @ Itoa 1"
    proof (cases "num = 1")
      case True
      then show ?thesis unfolding st by (simp add: shift_backups_done)
    next
      case False
      with num have "1 \<le> num - 1" by simp
      with IH show ?thesis unfolding st by blast
    qed
  next
    show "files (snd (shift_backups name num fname fsys)) (name @ ''.'' @ Itoa 1) = None"
    proof (cases "num = 1")
      case True
      with f1_old show ?thesis unfolding st by (simp add: shift_backups_done)
    next
      case False
      with num have "1 \<le> num - 1" by simp
      with IH show ?thesis unfolding st by blast
    qed
  next
    fix N f
    assume a: "1 \<le> N \<and> N \<le> num \<and> files fsys (name @ ''.'' @ Itoa N) = Some f"
    show "files (snd (shift_backups name num fname fsys)) (name @ ''.'' @ Itoa (N + 1)) = Some f"
    proof (cases "N = num")
      case True
      with a have "files ?fsys1 ?new = Some f" by (intro f1_new) simp
      moreover have "\<forall>k. 1 \<le> k \<and> k \<le> num - 1 + 1 \<longrightarrow> ?new \<noteq> name @ ''.'' @ Itoa k"
        using num by simp
      with IH have "files (snd (shift_backups name (num - 1) ?old ?fsys1)) ?new = files ?fsys1 ?new"
        by blast
      ultimately show ?thesis unfolding st using True by simp
    next
      case False
      with a num have "files ?fsys1 (name @ ''.'' @ Itoa N) = files fsys (name @ ''.'' @ Itoa N)"
        by (intro f1_other) simp_all
      with a False have "1 \<le> N \<and> N \<le> num - 1 \<and> files ?fsys1 (name @ ''.'' @ Itoa N) = Some f"
        by simp
      with IH show ?thesis unfolding st by blast
    qed
  next
    fix p
    assume a: "\<forall>k. 1 \<le> k \<and> k \<le> num + 1 \<longrightarrow> p \<noteq> name @ ''.'' @ Itoa k"
    with num have "p \<noteq> ?old" "p \<noteq> ?new" by auto
    then have "files ?fsys1 p = files fsys p" by (rule f1_other)
    moreover from a have "\<forall>k. 1 \<le> k \<and> k \<le> num - 1 + 1 \<longrightarrow> p \<noteq> name @ ''.'' @ Itoa k"
      by simp
    with IH have "files (snd (shift_backups name (num - 1) ?old ?fsys1)) p = files ?fsys1 p"
      by blast
    ultimately show "files (snd (shift_backups name num fname fsys)) p = files fsys p"
      unfolding st by simp
  next
    from IH f1_rf show "rename_fails (snd (shift_backups name num fname fsys)) = rename_fails fsys"
      unfolding st by simp
  next
    from IH f1_rf show "open_fails (snd (shift_backups name num fname fsys)) = open_fails fsys"
      unfolding st by simp
  qed
qed


text \<open>The count-based rotation with a backup cap of at least 2, where the live file
  exists and no rename is refused: every existing backup \<^verbatim>\<open><name>.<N>\<close> for
  \<^verbatim>\<open>N\<close> from \<^verbatim>\<open>maxbackup-1\<close> down to 1 moves to \<^verbatim>\<open><name>.<N+1>\<close>, and the
  live file moves to \<^verbatim>\<open><name>.1\<close>.\<close>

lemma count_rotation_shift:
  assumes "rotate' w" and "\<not> daily w" and "2 \<le> maxbackup w"
    and "files (fs wd) (filename w) = Some live"
    and "\<forall>a b. \<not> rename_fails (fs wd) a b"
  shows "\<exists>w' wd'. rotate_rename now w wd = (None, w', wd') \<and>
           files (fs wd') (filename w @ ''.'' @ Itoa 1) = Some live \<and>
           files (fs wd') (filename w) = None \<and>
           (\<forall>N f. 1 \<le> N \<and> N \<le> maxbackup w - 1 \<and>
                  files (fs wd) (filename w @ ''.'' @ Itoa N) = Some f \<longrightarrow>
                  files (fs wd') (filename w @ ''.'' @ Itoa (N + 1)) = Some f)"
proof -
  let ?name = "filename w"
  let ?s = "shift_backups ?name (maxbackup w - 1) [] (fs wd)"
  note c = shift_backups_chain [OF assms(5) refl, where name = ?name and num = "maxbackup w - 1"
      and fname = "[]"]
  from c assms(3) have fst: "fst ?s = ?name @ ''.'' @ Itoa 1" by simp
  from c have shifted: "files (fs wd) (?name @ ''.'' @ Itoa N) = Some f \<Longrightarrow> 1 \<le> N \<Longrightarrow>
      N \<le> maxbackup w - 1 \<Longrightarrow> files (snd ?s) (?name @ ''.'' @ Itoa (N + 1)) = Some f" for N f
    by blast
  have "\<forall>k. 1 \<le> k \<and> k \<le> maxbackup w - 1 + 1 \<longrightarrow> ?name \<noteq> ?name @ ''.'' @ Itoa k" by simp
  with c have "files (snd ?s) ?name = files (fs wd) ?name" by blast
  with assms(4) have live: "files (snd ?s) ?name = Some live" by simp
  from c assms(5) have nf: "\<not> rename_fails (snd ?s) a b" for a b by simp
  obtain fname fsys where s: "?s = (fname, fsys)" by (cases ?s) auto
  with fst live nf shifted have fname: "fname = ?name @ ''.'' @ Itoa 1"
    and live': "files fsys ?name = Some live" and nf': "\<not> rename_fails fsys a b"
    and shifted': "files (fs wd) (?name @ ''.'' @ Itoa N) = Some f \<Longrightarrow> 1 \<le> N \<Longrightarrow>
      N \<le> maxbackup w - 1 \<Longrightarrow> files fsys (?name @ ''.'' @ Itoa (N + 1)) = Some f" for a b N f
    by simp_all
  have "rotate_rename now w wd =
          (None, w\<lparr>daily_opendate := Day (ModTime live), file := os_Close (file w)\<rparr>,
           wd\<lparr>fs := fsys\<lparr>files := ((files fsys)(?name @ ''.'' @ Itoa 1 \<mapsto> live))(?name := None)\<rparr>\<rparr>)"
    using assms(1,2,4) s live' nf'
    by (simp add: rotate_rename_def os_Stat_def os_Rename_def Let_def fname)
  moreover have "files fsys (?name @ ''.'' @ Itoa (N + 1)) = Some f \<Longrightarrow> 1 \<le> N \<Longrightarrow>
     (((files fsys)(?name @ ''.'' @ Itoa 1 \<mapsto> live))(?name := None))
        (?name @ ''.'' @ Itoa (N + 1)) = Some f" for N f
    by (simp del: Itoa_1)
  ultimately show ?thesis using shifted' by (auto simp del: Itoa_1)
qed

text \<open>\<^verbatim>\<open>strings.Replace(m, "\n", "\\n", -1)\<close> puts a backslash and an n in the place of
  every line feed, and leaves no line feed.\<close>

lemma strings_Replace_newline:
  "strings_Replace m [CHR 0x0A] [CHR 0x5C, CHR ''n''] =
     concat (map (\<lambda>c. if c = CHR 0x0A then [CHR 0x5C, CHR ''n''] else [c]) m)"
proof (induction m)
  case Nil
  then show ?case by (simp add: strings_Replace.simps)
next
  case (Cons c m)
  then show ?case by (subst strings_Replace.simps) simp
qed

lemma escaped_no_newline:
  "CHR 0x0A \<notin> set (concat (map (\<lambda>c. if c = CHR 0x0A then [CHR 0x5C, CHR ''n''] else [c]) m))"
  by (induction m) auto

lemma write_record_sanitize:
  assumes "sanitize w"
  shows "write_record now rec w wd =
     (case write_record now
             (rec\<lparr>Message := concat (map (\<lambda>c. if c = CHR 0x0A then [CHR 0x5C, CHR ''n''] else [c])
                                   (Message rec))\<rparr>)
             (w\<lparr>sanitize := False\<rparr>) wd of
        (st, w', wd') \<Rightarrow> (st, w'\<lparr>sanitize := True\<rparr>, wd'))"
  using assms
  by (auto simp: write_record_def strings_Replace_newline report_def Let_def
      split: sum.splits prod.splits option.splits)

text \<open>
  Claim C7. With \<^verbatim>\<open>sanitize\<close> on, the part of a turn that renders, writes and counts
  a record does what it would do with \<^verbatim>\<open>sanitize\<close> off for the record whose message
  has a backslash and an n in the place of every line feed, and that message holds no
  line feed. When the file of the sink is open and the level of the record is one of the
  level table, the text appended to the file is the rendering of that record, the line
  count goes up by one and the byte count by the length of that text. The sink of the
  package with its standard pattern stores the message a, line feed, b as one line that
  ends in a, backslash, n, b.
\<close>

theorem sanitize_before_write:
  assumes "sanitize w"
  shows
    "write_record now rec w wd =
       (case write_record now
               (rec\<lparr>Message :=
                      concat (map (\<lambda>c. if c = CHR 0x0A then [CHR 0x5C, CHR ''n''] else [c])
                                (Message rec))\<rparr>)
               (w\<lparr>sanitize := False\<rparr>) wd of
          (st, w', wd') \<Rightarrow> (st, w'\<lparr>sanitize := True\<rparr>, wd')) \<and>
     CHR 0x0A \<notin> set (concat (map (\<lambda>c. if c = CHR 0x0A then [CHR 0x5C, CHR ''n''] else [c])
                                  (Message rec))) \<and>
     (file w = Some (Handle name True) \<and> files (fs wd) name = Some f \<and>
      0 \<le> Level rec \<and> Level rec < int (length levelStrings) \<longrightarrow>
      (\<exists>s c q.
         FormatLogRecord (formatCache wd) (format w)
           (Some (rec\<lparr>Message :=
                         concat (map (\<lambda>c. if c = CHR 0x0A then [CHR 0x5C, CHR ''n''] else [c])
                                   (Message rec))\<rparr>)) = Inr (s, c, q) \<and>
         write_record now rec w wd =
           (Running,
            w\<lparr>maxlines_curlines := maxlines_curlines w + 1,
              maxsize_cursize := maxsize_cursize w + int (length s)\<rparr>,
            wd\<lparr>formatCache := c,
               fs := (fs wd)\<lparr>files := (files (fs wd))(name \<mapsto>
                       f\<lparr>content := content f @ s,
                         ModTime := (if s = [] then ModTime f else now)\<rparr>)\<rparr>\<rparr>))) \<and>
     map_option (\<lambda>(st, evs, w, wd).
          (st, contents wd [''app.log''], maxlines_curlines w, maxsize_cursize w))
       (file_sink_run ''app.log'' False False 0 ''[%D %T] [%L] (%S) %M'' 0 0 True (ex_time 2 0)
          (ex_world ex_fs)
          [(ex_time 2 5, Rec (ex_info_record [CHR ''a'', CHR 0x0A, CHR ''b''] []))]) =
     Some (Running,
           [Some (''[2024/01/02 03:04:05 UTC] [INFO] (main.main:13) a'' @ [CHR 0x5C] @ ''nb'' @
                  [CHR 0x0A])],
           1, 53)"
proof (intro conjI impI)
  show "write_record now rec w wd =
       (case write_record now
               (rec\<lparr>Message :=
                      concat (map (\<lambda>c. if c = CHR 0x0A then [CHR 0x5C, CHR ''n''] else [c])
                                (Message rec))\<rparr>)
               (w\<lparr>sanitize := False\<rparr>) wd of
          (st, w', wd') \<Rightarrow> (st, w'\<lparr>sanitize := True\<rparr>, wd'))"
    using assms by (rule write_record_sanitize)
next
  show "CHR 0x0A \<notin> set (concat (map (\<lambda>c. if c = CHR 0x0A then [CHR 0x5C, CHR ''n''] else [c])
                                  (Message rec)))"
    by (rule escaped_no_newline)
next
  assume a: "file w = Some (Handle name True) \<and> files (fs wd) name = Some f \<and>
      0 \<le> Level rec \<and> Level rec < int (length levelStrings)"
  then have h: "file w = Some (Handle name True)" "files (fs wd) name = Some f"
    "0 \<le> Level rec" "Level rec < int (length levelStrings)"
    by simp_all
  from write_record_open [OF h, of now]
  show "\<exists>s c q.
         FormatLogRecord (formatCache wd) (format w)
           (Some (rec\<lparr>Message :=
                         concat (map (\<lambda>c. if c = CHR 0x0A then [CHR 0x5C, CHR ''n''] else [c])
                                   (Message rec))\<rparr>)) = Inr (s, c, q) \<and>
         write_record now rec w wd =
           (Running,
            w\<lparr>maxlines_curlines := maxlines_curlines w + 1,
              maxsize_cursize := maxsize_cursize w + int (length s)\<rparr>,
            wd\<lparr>formatCache := c,
               fs := (fs wd)\<lparr>files := (files (fs wd))(name \<mapsto>
                       f\<lparr>content := content f @ s,
                         ModTime := (if s = [] then ModTime f else now)\<rparr>)\<rparr>\<rparr>)"
    using assms by (simp add: strings_Replace_newline)
next
  show "map_option (\<lambda>(st, evs, w, wd).
          (st, contents wd [''app.log''], maxlines_curlines w, maxsize_cursize w))
       (file_sink_run ''app.log'' False False 0 ''[%D %T] [%L] (%S) %M'' 0 0 True (ex_time 2 0)
          (ex_world ex_fs)
          [(ex_time 2 5, Rec (ex_info_record [CHR ''a'', CHR 0x0A, CHR ''b''] []))]) =
     Some (Running,
           [Some (''[2024/01/02 03:04:05 UTC] [INFO] (main.main:13) a'' @ [CHR 0x5C] @ ''nb'' @
                  [CHR 0x0A])],
           1, 53)"
    by (simp add: sink_defs changeDttmFormat_no_brace directive_def strings_Replace.simps
        levelStrings_def go_div_def formatCache_init_def)
qed

text \<open>The sanitizing sink of the example and the record with the message a, line feed,
  b.\<close>

theorem sanitize_before_write_witness:
  "sanitize ex_sanitizing_writer \<and>
   file ex_sanitizing_writer = Some (Handle ''app.log'' True) \<and>
   files (fs ex_open_log) ''app.log'' = Some \<lparr>content = [], ModTime = ex_time 2 0\<rparr> \<and>
   0 \<le> Level (ex_info_record [CHR ''a'', CHR 0x0A, CHR ''b''] []) \<and>
   Level (ex_info_record [CHR ''a'', CHR 0x0A, CHR ''b''] []) < int (length levelStrings) \<and>
   CHR 0x0A \<notin> set (concat (map (\<lambda>c. if c = CHR 0x0A then [CHR 0x5C, CHR ''n''] else [c])
                  (Message (ex_info_record [CHR ''a'', CHR 0x0A, CHR ''b''] [])))) \<and>
   (\<exists>s c q w' wd'.
      FormatLogRecord (formatCache ex_open_log) (format ex_sanitizing_writer)
        (Some (ex_info_record [CHR ''a'', CHR 0x5C, CHR ''n'', CHR ''b''] [])) = Inr (s, c, q) \<and>
      write_record (ex_time 2 5) (ex_info_record [CHR ''a'', CHR 0x0A, CHR ''b''] [])
        ex_sanitizing_writer ex_open_log = (Running, w', wd') \<and>
      maxlines_curlines w' = 1 \<and> maxsize_cursize w' = int (length s) \<and>
      map_option content (files (fs wd') ''app.log'') = Some s)"
proof -
  let ?r = "ex_info_record [CHR ''a'', CHR 0x0A, CHR ''b''] []"
  have s: "sanitize ex_sanitizing_writer"
    and h: "file ex_sanitizing_writer = Some (Handle ''app.log'' True) \<and>
      files (fs ex_open_log) ''app.log'' = Some \<lparr>content = [], ModTime = ex_time 2 0\<rparr> \<and>
      0 \<le> Level ?r \<and> Level ?r < int (length levelStrings)"
    by (simp_all add: ex_sanitizing_writer_def ex_open_log_def ex_world_def ex_fs_def
        ex_info_record_def levelStrings_def)
  have m: "?r\<lparr>Message := concat (map (\<lambda>c. if c = CHR 0x0A then [CHR 0x5C, CHR ''n''] else [c])
                                   (Message ?r))\<rparr> =
           ex_info_record [CHR ''a'', CHR 0x5C, CHR ''n'', CHR ''b''] []"
    by (simp add: ex_info_record_def)
  note t = sanitize_before_write [OF s, where rec = ?r and now = "ex_time 2 5"
      and wd = ex_open_log and name = "''app.log''"
      and f = "\<lparr>content = [], ModTime = ex_time 2 0\<rparr>"]
  note imp = t [THEN conjunct2, THEN conjunct2, THEN conjunct1]
  from mp [OF imp h] obtain s c q where
    fm: "FormatLogRecord (formatCache ex_open_log) (format ex_sanitizing_writer)
        (Some (?r\<lparr>Message := concat (map (\<lambda>c. if c = CHR 0x0A then [CHR 0x5C, CHR ''n''] else [c])
                                   (Message ?r))\<rparr>)) = Inr (s, c, q)"
    and wr: "write_record (ex_time 2 5) ?r ex_sanitizing_writer ex_open_log =
           (Running,
            ex_sanitizing_writer\<lparr>maxlines_curlines := maxlines_curlines ex_sanitizing_writer + 1,
              maxsize_cursize := maxsize_cursize ex_sanitizing_writer + int (length s)\<rparr>,
            ex_open_log\<lparr>formatCache := c,
               fs := (fs ex_open_log)\<lparr>files := (files (fs ex_open_log))(''app.log'' \<mapsto>
                       \<lparr>content = [], ModTime = ex_time 2 0\<rparr>\<lparr>content :=
                           content \<lparr>content = [], ModTime = ex_time 2 0\<rparr> @ s,
                         ModTime := (if s = []
                                     then ModTime \<lparr>content = [], ModTime = ex_time 2 0\<rparr>
                                     else ex_time 2 5)\<rparr>)\<rparr>\<rparr>)"
    by (elim exE conjE)
  from fm have fm': "FormatLogRecord (formatCache ex_open_log) (format ex_sanitizing_writer)
        (Some (ex_info_record [CHR ''a'', CHR 0x5C, CHR ''n'', CHR ''b''] [])) = Inr (s, c, q)"
    by (simp only: m)
  have "\<exists>w' wd'.
      write_record (ex_time 2 5) ?r ex_sanitizing_writer ex_open_log = (Running, w', wd') \<and>
      maxlines_curlines w' = 1 \<and> maxsize_cursize w' = int (length s) \<and>
      map_option content (files (fs wd') ''app.log'') = Some s"
    by (simp only: wr) (simp add: ex_sanitizing_writer_def)
  with fm' have "\<exists>s c q w' wd'.
      FormatLogRecord (formatCache ex_open_log) (format ex_sanitizing_writer)
        (Some (ex_info_record [CHR ''a'', CHR 0x5C, CHR ''n'', CHR ''b''] [])) = Inr (s, c, q) \<and>
      write_record (ex_time 2 5) ?r ex_sanitizing_writer ex_open_log = (Running, w', wd') \<and>
      maxlines_curlines w' = 1 \<and> maxsize_cursize w' = int (length s) \<and>
      map_option content (files (fs wd') ''app.log'') = Some s"
    by blast
  moreover from t have "CHR 0x0A \<notin> set (concat (map (\<lambda>c. if c = CHR 0x0A
      then [CHR 0x5C, CHR ''n''] else [c]) (Message ?r)))"
    by blast
  ultimately show ?thesis using s h by blast
qed

text \<open>
  Claim C4 at a backup cap of 1. The loop over the backups then does not run, the name
  for the live file stays empty, and \<^verbatim>\<open>os.Rename(w.filename, "")\<close> fails: a sink
  created with \<^verbatim>\<open>NewFileLogWriter("app.log", true, false, 1)\<close> over an existing
  app.log gets no writer, the error goes to the error stream, app.log stays where it is
  and no app.log.1 appears. (At a cap of at least 2 the backups and the live file move
  as the claim says when no rename is refused: \<open>count_rotation_shift\<close>.)
\<close>

theorem count_rotation_cap_one:
  "map_sum id (\<lambda>(w, wd). (map_option filename w, stderr wd, contents wd [''app.log'', ''app.log.1'']))
     (NewFileLogWriter ''app.log'' True False 1 (ex_time 2 0) (ex_world ex_old_log)) =
   Inr (None, [(''app.log'', Errorf_Rotate ErrNotExist)], [Some (''x'' @ [CHR 0x0A]), None])"
  by (simp add: sink_defs)

text \<open>An error that \<^verbatim>\<open>intRotate\<close> returns ends the goroutine: the error is printed, the
  events that follow stay unread, and the files stay as the failed rotation left them
  (the file of the sink is closed by then, so the deferred trailer is not written).\<close>

lemma intRotate_Err_closed:
  assumes "intRotate now w wd = (Err e, w1, wd1)"
  shows "file w1 = os_Close (file w) \<and> filename w1 = filename w"
  using assms
  by (auto simp: intRotate_def rotate_close_def rotate_rename_def rotate_open_def os_Close_def
      Let_def split: sum.splits prod.splits option.splits if_splits os_File.splits)

lemma Fprint_closed: "snd (Fprint (os_Close fd) s now fsys) = fsys"
  by (auto simp: Fprint_def os_Close_def split: option.splits os_File.splits)

lemma rotation_error_fail_stop:
  assumes "intRotate now w wd = (Err e, w1, wd1)"
    and "ev = Rot \<or>
         (\<exists>rec. ev = Rec rec \<and>
            ((maxlines w > 0 \<and> maxlines_curlines w \<ge> maxlines w) \<or>
             (maxsize w > 0 \<and> maxsize_cursize w \<ge> maxsize w) \<or>
             (daily w \<and> Day now \<noteq> daily_opendate w)))"
  shows "\<exists>w2 wd2. consume ((now, ev) # evs) w wd = (Returned, evs, w2, wd2) \<and>
           stderr wd2 = stderr wd1 @ [(filename w, e)] \<and> fs wd2 = fs wd1"
proof -
  from intRotate_Err_closed [OF assms(1)]
  have c: "file w1 = os_Close (file w)" "filename w1 = filename w" by simp_all
  have turn: "loop_turn now ev w wd = (Returned, w1, report w1 e wd1)"
    using assms by (auto simp: loop_turn_def)
  from Fprint_template_returns [of "trailer w1" now w1 "report w1 e wd1"]
  obtain s cc where t: "Fprint_template (trailer w1) now w1 (report w1 e wd1) =
     Inr ((report w1 e wd1)\<lparr>fs := snd (Fprint (file w1) s now (fs (report w1 e wd1))),
                             formatCache := cc\<rparr>)"
    by blast
  show ?thesis
    using turn t c
    by (cases "file w = None") (auto simp: deferred_def report_def Fprint_closed Let_def)
qed

text \<open>
  Claim C6 at a rename that the loop over the backups makes. The result of that
  \<^verbatim>\<open>os.Rename\<close> is dropped: where app.log.1 exists and the file system refuses to
  rename it to app.log.2, a sink with a backup cap of 3 that gets a record a, a Rotate
  signal and a record b prints no error and goes on: the rotation puts app.log over
  app.log.1, whose old content is lost, and the record b is written to the new app.log.
\<close>

theorem ignored_rename_error:
  "map_option (\<lambda>(st, evs, w, wd).
        (st, evs, stderr wd, contents wd [''app.log'', ''app.log.1'', ''app.log.2'']))
     (file_sink_run ''app.log'' True False 3 ''%M'' 0 0 False (ex_time 2 0)
        (ex_world ex_stuck_backup)
        [(ex_time 2 1, Rec (ex_info_record ''a'' [])), (ex_time 2 2, Rot),
         (ex_time 2 3, Rec (ex_info_record ''b'' []))]) =
   Some (Running, [], [], [Some (''b'' @ [CHR 0x0A]), Some (''a'' @ [CHR 0x0A]), None])"
  by (simp add: sink_defs changeDttmFormat_no_brace directive_def)

end
